theory Spec2Isabelle
  imports Complex_Main "HOL-Library.Word"
begin

section \<open>Build configuration\<close>

text \<open>
  Both C files select their backend code with the preprocessor
  (\<^verbatim>\<open>gpucontext.c\<close> lines 7-33, \<^verbatim>\<open>passes.c\<close> lines 6-17).  The target platform is
  therefore a parameter of every function of the model.
\<close>

datatype platform = Linux | FreeBSD | Win32 | Apple | OtherOS

fun USE_EGL :: "platform \<Rightarrow> bool" where
  "USE_EGL Linux = True"
| "USE_EGL FreeBSD = True"
| "USE_EGL Win32 = False"
| "USE_EGL Apple = False"
| "USE_EGL OtherOS = False"

fun HAS_OPENGL :: "platform \<Rightarrow> bool" where
  "HAS_OPENGL Linux = True"
| "HAS_OPENGL FreeBSD = True"
| "HAS_OPENGL Win32 = True"
| "HAS_OPENGL Apple = True"
| "HAS_OPENGL OtherOS = False"

section \<open>Data model\<close>

text \<open>
  \<^verbatim>\<open>float\<close> values are only stored, passed on and converted to \<^verbatim>\<open>int32_t\<close>; they are
  modelled by the rationals (every finite float is one).  Object names handed out by the
  graphics library (\<^verbatim>\<open>GLuint\<close>, EGL handles) and \<^verbatim>\<open>GLint\<close> locations are never used in
  arithmetic, so they are plain numbers; \<^verbatim>\<open>uint32_t\<close> and \<^verbatim>\<open>int32_t\<close> are 32-bit words.
\<close>

type_synonym cfloat = rat
type_synonym u32 = "32 word"
type_synonym i32 = "32 word"
type_synonym GLuint = nat
type_synonym GLint = int
type_synonym GpuShader = nat
type_synonym GpuBuffer = nat
type_synonym GpuTexture = nat

datatype GpuBackendType =
  GPU_BACKEND_NONE | GPU_BACKEND_VULKAN | GPU_BACKEND_OPENGL | GPU_BACKEND_OPENGLES

text \<open>\<^verbatim>\<open>struct GpuContext\<close> (\<^verbatim>\<open>gpucontext.c\<close> lines 36-56).\<close>

record GpuContext =
  backend_type :: GpuBackendType
  width :: u32
  height :: u32
  egl_display :: nat
  egl_context :: nat
  egl_surface :: nat
  egl_config :: nat
  current_program :: GLuint
  device_name :: string
  vendor_name :: string
  driver_version :: string

section \<open>The graphics library as a test double\<close>

text \<open>
  EGL and OpenGL ES are outside the repository.  They are modelled by a double that logs
  every call, hands out fresh nonzero object names, keeps the lists of live objects (the
  leak counters) and the blend state.  What the real library decides (whether a probe step,
  a compilation or a link succeeds, where a uniform lives) is read from a \<open>driver\<close> record.
  The constructor \<open>Probe\<close> is instrumentation: it marks the entry into one of the
  \<^verbatim>\<open>try_init_*\<close> helpers.
\<close>

datatype shader_stage = GL_VERTEX_SHADER | GL_FRAGMENT_SHADER

datatype blend_factor =
  GL_ZERO | GL_ONE | GL_SRC_ALPHA | GL_ONE_MINUS_SRC_ALPHA | GL_DST_COLOR
  | GL_ONE_MINUS_SRC_COLOR

datatype gl_string = GL_VENDOR | GL_RENDERER | GL_VERSION

datatype egl_call =
    EglGetDisplay
  | EglInitialize nat
  | EglChooseConfig nat
  | EglCreatePbufferSurface nat nat u32 u32
  | EglCreateContext nat nat
  | EglMakeCurrent nat nat nat nat
  | EglDestroyContext nat nat
  | EglDestroySurface nat nat
  | EglTerminate nat
  | EglSwapBuffers nat nat

datatype shader_call =
    GlCreateShader shader_stage
  | GlShaderSource GLuint string
  | GlCompileShader GLuint
  | GlGetShaderiv GLuint
  | GlGetShaderInfoLog GLuint
  | GlDeleteShader GLuint
  | GlCreateProgram
  | GlAttachShader GLuint GLuint
  | GlLinkProgram GLuint
  | GlGetProgramiv GLuint
  | GlGetProgramInfoLog GLuint
  | GlDeleteProgram GLuint
  | GlUseProgram GLuint

datatype uniform_call =
    GlGetUniformLocation GLuint string
  | GlUniform1f GLint cfloat
  | GlUniform2f GLint cfloat cfloat
  | GlUniform3f GLint cfloat cfloat cfloat
  | GlUniform4f GLint cfloat cfloat cfloat cfloat
  | GlUniformMatrix4fv GLint "cfloat list"

datatype draw_call =
    GlGetString gl_string
  | GlClearColor cfloat cfloat cfloat cfloat
  | GlClear
  | GlViewport i32 i32 u32 u32
  | GlGenBuffers
  | GlBindBuffer GLuint
  | GlBufferData u32 "cfloat list"
  | GlDeleteBuffers GLuint
  | GlGenTextures
  | GlActiveTexture u32
  | GlBindTexture GLuint
  | GlTexImage2D u32 u32 "8 word list option"
  | GlTexParameteri_MIN_FILTER_LINEAR
  | GlTexParameteri_MAG_FILTER_LINEAR
  | GlDeleteTextures GLuint
  | GlEnable_BLEND
  | GlBlendFunc blend_factor blend_factor

datatype api_call =
    Probe GpuBackendType
  | Printf string
  | EGL egl_call
  | Shader shader_call
  | Uniform uniform_call
  | GL draw_call

record driver =
  calloc_ok :: bool
  display_ok :: bool
  initialize_ok :: bool
  choose_config_ok :: bool
  create_surface_ok :: bool
  create_context_ok :: bool
  make_current_ok :: bool
  get_string :: "gl_string \<Rightarrow> string option"
  compile_ok :: "shader_stage \<Rightarrow> string \<Rightarrow> bool"
  link_ok :: "(shader_stage \<times> string) list \<Rightarrow> bool"
  info_log :: "GLuint \<Rightarrow> string"
  uniform_location :: "GLuint \<Rightarrow> string \<Rightarrow> GLint"

record world =
  api_calls :: "api_call list"
  next_name :: nat
  heap_blocks :: nat
  display_initialized :: bool
  live_surfaces :: "nat list"
  live_contexts :: "nat list"
  current_binding :: "(nat \<times> nat \<times> nat) option"
  live_shaders :: "GLuint list"
  live_programs :: "GLuint list"
  live_buffers :: "GLuint list"
  live_textures :: "GLuint list"
  stage_of :: "GLuint \<Rightarrow> shader_stage"
  source_of :: "GLuint \<Rightarrow> string"
  attached_to :: "GLuint \<Rightarrow> GLuint list"
  blend_enabled :: bool
  blend_src :: blend_factor
  blend_dst :: blend_factor

definition emit :: "api_call \<Rightarrow> world \<Rightarrow> world" where
  "emit c w = w\<lparr>api_calls := api_calls w @ [c]\<rparr>"

definition printf :: "string \<Rightarrow> world \<Rightarrow> world" where
  "printf s w = emit (Printf s) w"

subsection \<open>EGL\<close>

definition EGL_NO_DISPLAY :: nat where "EGL_NO_DISPLAY = 0"
definition EGL_NO_SURFACE :: nat where "EGL_NO_SURFACE = 0"
definition EGL_NO_CONTEXT :: nat where "EGL_NO_CONTEXT = 0"

definition eglGetDisplay :: "driver \<Rightarrow> world \<Rightarrow> nat \<times> world" where
  "eglGetDisplay drv w =
     ((if display_ok drv then 1 else EGL_NO_DISPLAY), emit (EGL EglGetDisplay) w)"

definition eglInitialize :: "driver \<Rightarrow> nat \<Rightarrow> world \<Rightarrow> bool \<times> world" where
  "eglInitialize drv d w =
     (if initialize_ok drv
      then (True, (emit (EGL (EglInitialize d)) w)\<lparr>display_initialized := True\<rparr>)
      else (False, emit (EGL (EglInitialize d)) w))"

definition eglChooseConfig :: "driver \<Rightarrow> nat \<Rightarrow> world \<Rightarrow> (bool \<times> nat) \<times> world" where
  "eglChooseConfig drv d w = ((choose_config_ok drv, 1), emit (EGL (EglChooseConfig d)) w)"

definition eglCreatePbufferSurface ::
    "driver \<Rightarrow> nat \<Rightarrow> nat \<Rightarrow> u32 \<Rightarrow> u32 \<Rightarrow> world \<Rightarrow> nat \<times> world" where
  "eglCreatePbufferSurface drv d cfg wd ht w =
     (let w1 = emit (EGL (EglCreatePbufferSurface d cfg wd ht)) w in
      if create_surface_ok drv
      then (Suc (next_name w1),
            w1\<lparr>next_name := Suc (next_name w1),
               live_surfaces := Suc (next_name w1) # live_surfaces w1\<rparr>)
      else (EGL_NO_SURFACE, w1))"

definition eglCreateContext :: "driver \<Rightarrow> nat \<Rightarrow> nat \<Rightarrow> world \<Rightarrow> nat \<times> world" where
  "eglCreateContext drv d cfg w =
     (let w1 = emit (EGL (EglCreateContext d cfg)) w in
      if create_context_ok drv
      then (Suc (next_name w1),
            w1\<lparr>next_name := Suc (next_name w1),
               live_contexts := Suc (next_name w1) # live_contexts w1\<rparr>)
      else (EGL_NO_CONTEXT, w1))"

definition eglMakeCurrent ::
    "driver \<Rightarrow> nat \<Rightarrow> nat \<Rightarrow> nat \<Rightarrow> nat \<Rightarrow> world \<Rightarrow> bool \<times> world" where
  "eglMakeCurrent drv d draw rd c w =
     (let w1 = emit (EGL (EglMakeCurrent d draw rd c)) w in
      if make_current_ok drv
      then (True, w1\<lparr>current_binding := Some (draw, rd, c)\<rparr>)
      else (False, w1))"

definition eglDestroyContext :: "nat \<Rightarrow> nat \<Rightarrow> world \<Rightarrow> world" where
  "eglDestroyContext d c w =
     (emit (EGL (EglDestroyContext d c)) w)\<lparr>live_contexts := remove1 c (live_contexts w)\<rparr>"

definition eglDestroySurface :: "nat \<Rightarrow> nat \<Rightarrow> world \<Rightarrow> world" where
  "eglDestroySurface d s w =
     (emit (EGL (EglDestroySurface d s)) w)\<lparr>live_surfaces := remove1 s (live_surfaces w)\<rparr>"

definition eglTerminate :: "nat \<Rightarrow> world \<Rightarrow> world" where
  "eglTerminate d w =
     (emit (EGL (EglTerminate d)) w)\<lparr>display_initialized := False, current_binding := None\<rparr>"

definition eglSwapBuffers :: "nat \<Rightarrow> nat \<Rightarrow> world \<Rightarrow> world" where
  "eglSwapBuffers d s w = emit (EGL (EglSwapBuffers d s)) w"

definition glGetString :: "driver \<Rightarrow> gl_string \<Rightarrow> world \<Rightarrow> string option \<times> world" where
  "glGetString drv n w = (get_string drv n, emit (GL (GlGetString n)) w)"

subsection \<open>OpenGL ES\<close>

definition fresh_name :: "world \<Rightarrow> GLuint" where
  "fresh_name w = Suc (next_name w)"

definition glClearColor :: "cfloat \<Rightarrow> cfloat \<Rightarrow> cfloat \<Rightarrow> cfloat \<Rightarrow> world \<Rightarrow> world" where
  "glClearColor r g b a w = emit (GL (GlClearColor r g b a)) w"

definition glClear :: "world \<Rightarrow> world" where
  "glClear w = emit (GL GlClear) w"

definition glViewport :: "i32 \<Rightarrow> i32 \<Rightarrow> u32 \<Rightarrow> u32 \<Rightarrow> world \<Rightarrow> world" where
  "glViewport x y wd ht w = emit (GL (GlViewport x y wd ht)) w"

definition glCreateShader :: "shader_stage \<Rightarrow> world \<Rightarrow> GLuint \<times> world" where
  "glCreateShader st w =
     (fresh_name w,
      (emit (Shader (GlCreateShader st)) w)
        \<lparr>next_name := fresh_name w, live_shaders := fresh_name w # live_shaders w,
         stage_of := (stage_of w)(fresh_name w := st),
         source_of := (source_of w)(fresh_name w := [])\<rparr>)"

definition glShaderSource :: "GLuint \<Rightarrow> string \<Rightarrow> world \<Rightarrow> world" where
  "glShaderSource sh src w =
     (emit (Shader (GlShaderSource sh src)) w)\<lparr>source_of := (source_of w)(sh := src)\<rparr>"

definition glCompileShader :: "GLuint \<Rightarrow> world \<Rightarrow> world" where
  "glCompileShader sh w = emit (Shader (GlCompileShader sh)) w"

text \<open>\<^verbatim>\<open>glGetShaderiv(sh, GL_COMPILE_STATUS, &success)\<close>.\<close>

definition glGetShaderiv :: "driver \<Rightarrow> GLuint \<Rightarrow> world \<Rightarrow> bool \<times> world" where
  "glGetShaderiv drv sh w =
     (compile_ok drv (stage_of w sh) (source_of w sh), emit (Shader (GlGetShaderiv sh)) w)"

text \<open>The log is written into \<^verbatim>\<open>char info_log[512]\<close>.\<close>

definition glGetShaderInfoLog :: "driver \<Rightarrow> GLuint \<Rightarrow> world \<Rightarrow> string \<times> world" where
  "glGetShaderInfoLog drv sh w =
     (take 511 (info_log drv sh), emit (Shader (GlGetShaderInfoLog sh)) w)"

definition glDeleteShader :: "GLuint \<Rightarrow> world \<Rightarrow> world" where
  "glDeleteShader sh w =
     (emit (Shader (GlDeleteShader sh)) w)\<lparr>live_shaders := remove1 sh (live_shaders w)\<rparr>"

definition glCreateProgram :: "world \<Rightarrow> GLuint \<times> world" where
  "glCreateProgram w =
     (fresh_name w,
      (emit (Shader GlCreateProgram) w)
        \<lparr>next_name := fresh_name w, live_programs := fresh_name w # live_programs w,
         attached_to := (attached_to w)(fresh_name w := [])\<rparr>)"

definition glAttachShader :: "GLuint \<Rightarrow> GLuint \<Rightarrow> world \<Rightarrow> world" where
  "glAttachShader p sh w =
     (emit (Shader (GlAttachShader p sh)) w)
       \<lparr>attached_to := (attached_to w)(p := attached_to w p @ [sh])\<rparr>"

definition glLinkProgram :: "GLuint \<Rightarrow> world \<Rightarrow> world" where
  "glLinkProgram p w = emit (Shader (GlLinkProgram p)) w"

text \<open>\<^verbatim>\<open>glGetProgramiv(p, GL_LINK_STATUS, &success)\<close>.\<close>

definition glGetProgramiv :: "driver \<Rightarrow> GLuint \<Rightarrow> world \<Rightarrow> bool \<times> world" where
  "glGetProgramiv drv p w =
     (link_ok drv (map (\<lambda>sh. (stage_of w sh, source_of w sh)) (attached_to w p)),
      emit (Shader (GlGetProgramiv p)) w)"

definition glGetProgramInfoLog :: "driver \<Rightarrow> GLuint \<Rightarrow> world \<Rightarrow> string \<times> world" where
  "glGetProgramInfoLog drv p w =
     (take 511 (info_log drv p), emit (Shader (GlGetProgramInfoLog p)) w)"

definition glDeleteProgram :: "GLuint \<Rightarrow> world \<Rightarrow> world" where
  "glDeleteProgram p w =
     (emit (Shader (GlDeleteProgram p)) w)\<lparr>live_programs := remove1 p (live_programs w)\<rparr>"

definition glUseProgram :: "GLuint \<Rightarrow> world \<Rightarrow> world" where
  "glUseProgram p w = emit (Shader (GlUseProgram p)) w"

definition glGetUniformLocation :: "driver \<Rightarrow> GLuint \<Rightarrow> string \<Rightarrow> world \<Rightarrow> GLint \<times> world" where
  "glGetUniformLocation drv p name w =
     (uniform_location drv p name, emit (Uniform (GlGetUniformLocation p name)) w)"

definition glUniform1f :: "GLint \<Rightarrow> cfloat \<Rightarrow> world \<Rightarrow> world" where
  "glUniform1f loc v w = emit (Uniform (GlUniform1f loc v)) w"

definition glUniform2f :: "GLint \<Rightarrow> cfloat \<Rightarrow> cfloat \<Rightarrow> world \<Rightarrow> world" where
  "glUniform2f loc x y w = emit (Uniform (GlUniform2f loc x y)) w"

definition glUniform3f :: "GLint \<Rightarrow> cfloat \<Rightarrow> cfloat \<Rightarrow> cfloat \<Rightarrow> world \<Rightarrow> world" where
  "glUniform3f loc x y z w = emit (Uniform (GlUniform3f loc x y z)) w"

definition glUniform4f ::
    "GLint \<Rightarrow> cfloat \<Rightarrow> cfloat \<Rightarrow> cfloat \<Rightarrow> cfloat \<Rightarrow> world \<Rightarrow> world" where
  "glUniform4f loc x y z q w = emit (Uniform (GlUniform4f loc x y z q)) w"

definition glUniformMatrix4fv :: "GLint \<Rightarrow> cfloat list \<Rightarrow> world \<Rightarrow> world" where
  "glUniformMatrix4fv loc m w = emit (Uniform (GlUniformMatrix4fv loc m)) w"

definition glGenBuffers :: "world \<Rightarrow> GLuint \<times> world" where
  "glGenBuffers w =
     (fresh_name w,
      (emit (GL GlGenBuffers) w)
        \<lparr>next_name := fresh_name w, live_buffers := fresh_name w # live_buffers w\<rparr>)"

definition glBindBuffer :: "GLuint \<Rightarrow> world \<Rightarrow> world" where
  "glBindBuffer b w = emit (GL (GlBindBuffer b)) w"

definition glBufferData :: "u32 \<Rightarrow> cfloat list \<Rightarrow> world \<Rightarrow> world" where
  "glBufferData byte_size content w = emit (GL (GlBufferData byte_size content)) w"

definition glDeleteBuffers :: "GLuint \<Rightarrow> world \<Rightarrow> world" where
  "glDeleteBuffers b w =
     (emit (GL (GlDeleteBuffers b)) w)\<lparr>live_buffers := remove1 b (live_buffers w)\<rparr>"

definition glGenTextures :: "world \<Rightarrow> GLuint \<times> world" where
  "glGenTextures w =
     (fresh_name w,
      (emit (GL GlGenTextures) w)
        \<lparr>next_name := fresh_name w, live_textures := fresh_name w # live_textures w\<rparr>)"

definition GL_TEXTURE0 :: u32 where "GL_TEXTURE0 = 0x84C0"

definition glActiveTexture :: "u32 \<Rightarrow> world \<Rightarrow> world" where
  "glActiveTexture unit w = emit (GL (GlActiveTexture unit)) w"

definition glBindTexture :: "GLuint \<Rightarrow> world \<Rightarrow> world" where
  "glBindTexture t w = emit (GL (GlBindTexture t)) w"

definition glTexImage2D :: "u32 \<Rightarrow> u32 \<Rightarrow> 8 word list option \<Rightarrow> world \<Rightarrow> world" where
  "glTexImage2D wd ht data w = emit (GL (GlTexImage2D wd ht data)) w"

definition glTexParameteri_MIN_FILTER_LINEAR :: "world \<Rightarrow> world" where
  "glTexParameteri_MIN_FILTER_LINEAR w = emit (GL GlTexParameteri_MIN_FILTER_LINEAR) w"

definition glTexParameteri_MAG_FILTER_LINEAR :: "world \<Rightarrow> world" where
  "glTexParameteri_MAG_FILTER_LINEAR w = emit (GL GlTexParameteri_MAG_FILTER_LINEAR) w"

definition glDeleteTextures :: "GLuint \<Rightarrow> world \<Rightarrow> world" where
  "glDeleteTextures t w =
     (emit (GL (GlDeleteTextures t)) w)\<lparr>live_textures := remove1 t (live_textures w)\<rparr>"

definition glEnable_BLEND :: "world \<Rightarrow> world" where
  "glEnable_BLEND w = (emit (GL GlEnable_BLEND) w)\<lparr>blend_enabled := True\<rparr>"

definition glBlendFunc :: "blend_factor \<Rightarrow> blend_factor \<Rightarrow> world \<Rightarrow> world" where
  "glBlendFunc sf df w = (emit (GL (GlBlendFunc sf df)) w)\<lparr>blend_src := sf, blend_dst := df\<rparr>"

section \<open>Backend negotiation (\<^verbatim>\<open>gpucontext.c\<close>)\<close>

text \<open>\<^verbatim>\<open>strncpy(dst, src, n)\<close> into a zeroed buffer of \<open>n + 1\<close> bytes.\<close>

definition strncpy :: "string \<Rightarrow> nat \<Rightarrow> string" where
  "strncpy src n = take n src"

definition copy_device_info :: "driver \<Rightarrow> GpuContext \<Rightarrow> world \<Rightarrow> GpuContext \<times> world" where
  "copy_device_info drv ctx w =
     (case glGetString drv GL_VENDOR w of (vendor, w1) \<Rightarrow>
      case glGetString drv GL_RENDERER w1 of (renderer, w2) \<Rightarrow>
      case glGetString drv GL_VERSION w2 of (version, w3) \<Rightarrow>
      let c1 = (case vendor of None \<Rightarrow> ctx
                | Some s \<Rightarrow> ctx\<lparr>vendor_name := strncpy s 127\<rparr>);
          c2 = (case renderer of None \<Rightarrow> c1
                | Some s \<Rightarrow> c1\<lparr>device_name := strncpy s 255\<rparr>);
          c3 = (case version of None \<Rightarrow> c2
                | Some s \<Rightarrow> c2\<lparr>driver_version := strncpy s 63\<rparr>)
      in (c3, w3))"

text \<open>\<^verbatim>\<open>try_init_opengles\<close>, lines 59-140; each early \<^verbatim>\<open>return false\<close> is a branch.\<close>

definition try_init_opengles ::
    "platform \<Rightarrow> driver \<Rightarrow> GpuContext \<Rightarrow> world \<Rightarrow> bool \<times> GpuContext \<times> world" where
  "try_init_opengles plat drv ctx w0 =
     (let w = emit (Probe GPU_BACKEND_OPENGLES) w0 in
      if \<not> USE_EGL plat then (False, ctx, w)
      else
        case eglGetDisplay drv w of (d, w1) \<Rightarrow>
        let c1 = ctx\<lparr>egl_display := d\<rparr> in
        if egl_display c1 = EGL_NO_DISPLAY then (False, c1, w1)
        else
          case eglInitialize drv (egl_display c1) w1 of (ok2, w2) \<Rightarrow>
          if \<not> ok2 then (False, c1, w2)
          else
            case eglChooseConfig drv (egl_display c1) w2 of ((ok3, cfg), w3) \<Rightarrow>
            let c3 = c1\<lparr>egl_config := cfg\<rparr> in
            if \<not> ok3 then (False, c3, eglTerminate (egl_display c3) w3)
            else
              case eglCreatePbufferSurface drv (egl_display c3) (egl_config c3)
                     (width c3) (height c3) w3 of (s, w4) \<Rightarrow>
              let c4 = c3\<lparr>egl_surface := s\<rparr> in
              if egl_surface c4 = EGL_NO_SURFACE
              then (False, c4, eglTerminate (egl_display c4) w4)
              else
                case eglCreateContext drv (egl_display c4) (egl_config c4) w4 of (k, w5) \<Rightarrow>
                let c5 = c4\<lparr>egl_context := k\<rparr> in
                if egl_context c5 = EGL_NO_CONTEXT
                then (False, c5,
                      eglTerminate (egl_display c5)
                        (eglDestroySurface (egl_display c5) (egl_surface c5) w5))
                else
                  case eglMakeCurrent drv (egl_display c5) (egl_surface c5)
                         (egl_surface c5) (egl_context c5) w5 of (ok6, w6) \<Rightarrow>
                  if \<not> ok6
                  then (False, c5,
                        eglTerminate (egl_display c5)
                          (eglDestroySurface (egl_display c5) (egl_surface c5)
                            (eglDestroyContext (egl_display c5) (egl_context c5) w6)))
                  else
                    case copy_device_info drv c5 w6 of (c7, w7) \<Rightarrow>
                    (True, c7\<lparr>backend_type := GPU_BACKEND_OPENGLES\<rparr>, w7))"

text \<open>
  \<^verbatim>\<open>try_init_opengl\<close>, lines 143-159: on FreeBSD and macOS it fills in the context and
  still reports failure; elsewhere it only reports failure.
\<close>

definition try_init_opengl ::
    "platform \<Rightarrow> GpuContext \<Rightarrow> world \<Rightarrow> bool \<times> GpuContext \<times> world" where
  "try_init_opengl plat ctx w0 =
     (let w = emit (Probe GPU_BACKEND_OPENGL) w0 in
      if plat = FreeBSD \<or> plat = Apple
      then (False,
            ctx\<lparr>vendor_name := strncpy ''System'' 127,
                device_name := strncpy ''OpenGL (not initialized)'' 255,
                driver_version := strncpy ''N/A'' 63,
                backend_type := GPU_BACKEND_OPENGL\<rparr>, w)
      else (False, ctx, w))"

text \<open>\<^verbatim>\<open>try_init_vulkan\<close>, lines 162-166: a stub.\<close>

definition try_init_vulkan :: "GpuContext \<Rightarrow> world \<Rightarrow> bool \<times> GpuContext \<times> world" where
  "try_init_vulkan ctx w0 = (False, ctx, emit (Probe GPU_BACKEND_VULKAN) w0)"

text \<open>The block \<^verbatim>\<open>calloc(1, sizeof(GpuContext))\<close> returns: all fields zero.\<close>

definition zeroed_context :: GpuContext where
  "zeroed_context =
     \<lparr>backend_type = GPU_BACKEND_NONE, width = 0, height = 0, egl_display = 0,
      egl_context = 0, egl_surface = 0, egl_config = 0, current_program = 0,
      device_name = [], vendor_name = [], driver_version = []\<rparr>"

definition calloc_context :: "driver \<Rightarrow> world \<Rightarrow> GpuContext option \<times> world" where
  "calloc_context drv w =
     (if calloc_ok drv then (Some zeroed_context, w\<lparr>heap_blocks := Suc (heap_blocks w)\<rparr>)
      else (None, w))"

definition free_context :: "world \<Rightarrow> world" where
  "free_context w = w\<lparr>heap_blocks := heap_blocks w - 1\<rparr>"

text \<open>\<^verbatim>\<open>gpu_context_create\<close>, lines 170-200.  \<open>None\<close> is the \<^verbatim>\<open>NULL\<close> pointer.\<close>

definition gpu_context_create ::
    "platform \<Rightarrow> driver \<Rightarrow> u32 \<Rightarrow> u32 \<Rightarrow> world \<Rightarrow> GpuContext option \<times> world" where
  "gpu_context_create plat drv wd ht w =
     (case calloc_context drv w of
        (None, w0) \<Rightarrow> (None, w0)
      | (Some blk, w0) \<Rightarrow>
          let ctx = blk\<lparr>width := wd, height := ht, backend_type := GPU_BACKEND_NONE\<rparr> in
          case try_init_vulkan ctx w0 of (okv, cv, wv) \<Rightarrow>
          if okv then (Some cv, printf ''GPU: Initialized Vulkan backend\<newline>'' wv)
          else
            case try_init_opengl plat cv wv of (okg, cg, wg) \<Rightarrow>
            if okg then (Some cg, printf ''GPU: Initialized OpenGL backend\<newline>'' wg)
            else
              case try_init_opengles plat drv cg wg of (oke, ce, we) \<Rightarrow>
              if oke then (Some ce, printf ''GPU: Initialized OpenGL ES backend\<newline>'' we)
              else
                (None,
                 free_context
                   (printf ''GPU: No hardware backend available, using CPU fallback\<newline>''
                      we)))"

text \<open>\<^verbatim>\<open>gpu_context_is_valid\<close> and \<^verbatim>\<open>gpu_context_get_backend\<close>, lines 217-223.\<close>

definition gpu_context_is_valid :: "GpuContext option \<Rightarrow> bool" where
  "gpu_context_is_valid ctx =
     (case ctx of None \<Rightarrow> False | Some c \<Rightarrow> backend_type c \<noteq> GPU_BACKEND_NONE)"

definition gpu_context_get_backend :: "GpuContext option \<Rightarrow> GpuBackendType" where
  "gpu_context_get_backend ctx =
     (case ctx of None \<Rightarrow> GPU_BACKEND_NONE | Some c \<Rightarrow> backend_type c)"

section \<open>Per-call operations (\<^verbatim>\<open>gpucontext.c\<close>)\<close>

text \<open>
  Every operation starts with its null checks and then, under \<^verbatim>\<open>#ifdef USE_EGL\<close>, tests
  \<^verbatim>\<open>ctx->backend_type == GPU_BACKEND_OPENGLES\<close>.  \<open>on_gles\<close> is that test.
\<close>

definition on_gles :: "platform \<Rightarrow> GpuContext \<Rightarrow> bool" where
  "on_gles plat c \<longleftrightarrow> USE_EGL plat \<and> backend_type c = GPU_BACKEND_OPENGLES"

text \<open>Lines 244-253.\<close>

definition gpu_context_clear ::
    "platform \<Rightarrow> GpuContext option \<Rightarrow> cfloat \<Rightarrow> cfloat \<Rightarrow> cfloat \<Rightarrow> cfloat \<Rightarrow> world \<Rightarrow> world"
  where
  "gpu_context_clear plat ctx r g b a w =
     (case ctx of
        None \<Rightarrow> w
      | Some c \<Rightarrow> if on_gles plat c then glClear (glClearColor r g b a w) else w)"

text \<open>Lines 255-265.  The context is written through the pointer, so it is returned.\<close>

definition gpu_context_viewport ::
    "platform \<Rightarrow> GpuContext option \<Rightarrow> i32 \<Rightarrow> i32 \<Rightarrow> u32 \<Rightarrow> u32 \<Rightarrow> world \<Rightarrow>
       GpuContext option \<times> world" where
  "gpu_context_viewport plat ctx x y wd ht w =
     (case ctx of
        None \<Rightarrow> (None, w)
      | Some c \<Rightarrow>
          if on_gles plat c
          then (Some (c\<lparr>width := wd, height := ht\<rparr>), glViewport x y wd ht w)
          else (Some c, w))"

text \<open>Lines 267-275.\<close>

definition gpu_context_present :: "platform \<Rightarrow> GpuContext option \<Rightarrow> world \<Rightarrow> world" where
  "gpu_context_present plat ctx w =
     (case ctx of
        None \<Rightarrow> w
      | Some c \<Rightarrow>
          if on_gles plat c then eglSwapBuffers (egl_display c) (egl_surface c) w else w)"

text \<open>Lines 277-337.  The sources are \<^verbatim>\<open>const char*\<close>: \<open>None\<close> is \<^verbatim>\<open>NULL\<close>.\<close>

definition gpu_context_create_shader ::
    "platform \<Rightarrow> driver \<Rightarrow> GpuContext option \<Rightarrow> string option \<Rightarrow> string option \<Rightarrow> world \<Rightarrow>
       GpuShader \<times> world" where
  "gpu_context_create_shader plat drv ctx vertex_src fragment_src w =
     (case ctx of None \<Rightarrow> (0, w) | Some c \<Rightarrow>
      (case vertex_src of None \<Rightarrow> (0, w) | Some vs \<Rightarrow>
      (case fragment_src of None \<Rightarrow> (0, w) | Some fs \<Rightarrow>
      if on_gles plat c then
        case glCreateShader GL_VERTEX_SHADER w of (vertex_shader, w1) \<Rightarrow>
        let w2 = glCompileShader vertex_shader (glShaderSource vertex_shader vs w1) in
        case glGetShaderiv drv vertex_shader w2 of (success_v, w3) \<Rightarrow>
        if \<not> success_v then
          case glGetShaderInfoLog drv vertex_shader w3 of (log_v, w4) \<Rightarrow>
          (0, glDeleteShader vertex_shader
                (printf (''Vertex shader compilation failed: '' @ log_v @ ''\<newline>'') w4))
        else
          case glCreateShader GL_FRAGMENT_SHADER w3 of (fragment_shader, w5) \<Rightarrow>
          let w6 = glCompileShader fragment_shader
                     (glShaderSource fragment_shader fs w5) in
          case glGetShaderiv drv fragment_shader w6 of (success_f, w7) \<Rightarrow>
          if \<not> success_f then
            case glGetShaderInfoLog drv fragment_shader w7 of (log_f, w8) \<Rightarrow>
            (0, glDeleteShader fragment_shader
                  (glDeleteShader vertex_shader
                    (printf (''Fragment shader compilation failed: '' @ log_f @ ''\<newline>'')
                       w8)))
          else
            case glCreateProgram w7 of (program, w9) \<Rightarrow>
            let w10 = glLinkProgram program
                        (glAttachShader program fragment_shader
                          (glAttachShader program vertex_shader w9)) in
            case glGetProgramiv drv program w10 of (success_l, w11) \<Rightarrow>
            if \<not> success_l then
              case glGetProgramInfoLog drv program w11 of (log_l, w12) \<Rightarrow>
              (0, glDeleteProgram program
                    (glDeleteShader fragment_shader
                      (glDeleteShader vertex_shader
                        (printf (''Shader program linking failed: '' @ log_l @ ''\<newline>'')
                           w12))))
            else
              (program, glDeleteShader fragment_shader (glDeleteShader vertex_shader w11))
      else (0, w))))"

text \<open>Lines 339-358.\<close>

definition gpu_context_use_shader ::
    "platform \<Rightarrow> GpuContext option \<Rightarrow> GpuShader \<Rightarrow> world \<Rightarrow> GpuContext option \<times> world" where
  "gpu_context_use_shader plat ctx shader w =
     (case ctx of
        None \<Rightarrow> (None, w)
      | Some c \<Rightarrow>
          if on_gles plat c
          then (Some (c\<lparr>current_program := shader\<rparr>), glUseProgram shader w)
          else (Some c, w))"

definition gpu_context_delete_shader ::
    "platform \<Rightarrow> GpuContext option \<Rightarrow> GpuShader \<Rightarrow> world \<Rightarrow> world" where
  "gpu_context_delete_shader plat ctx shader w =
     (case ctx of
        None \<Rightarrow> w
      | Some c \<Rightarrow> if on_gles plat c then glDeleteProgram shader w else w)"

text \<open>Lines 360-423: the five uniform uploads.\<close>

definition gpu_context_set_uniform_float ::
    "platform \<Rightarrow> driver \<Rightarrow> GpuContext option \<Rightarrow> string option \<Rightarrow> cfloat \<Rightarrow> world \<Rightarrow> world"
  where
  "gpu_context_set_uniform_float plat drv ctx name v w =
     (case ctx of None \<Rightarrow> w | Some c \<Rightarrow>
      (case name of None \<Rightarrow> w | Some n \<Rightarrow>
      if on_gles plat c then
        case glGetUniformLocation drv (current_program c) n w of (location, w1) \<Rightarrow>
        if 0 \<le> location then glUniform1f location v w1 else w1
      else w))"

definition gpu_context_set_uniform_vec2 ::
    "platform \<Rightarrow> driver \<Rightarrow> GpuContext option \<Rightarrow> string option \<Rightarrow> cfloat \<Rightarrow> cfloat \<Rightarrow>
       world \<Rightarrow> world" where
  "gpu_context_set_uniform_vec2 plat drv ctx name x y w =
     (case ctx of None \<Rightarrow> w | Some c \<Rightarrow>
      (case name of None \<Rightarrow> w | Some n \<Rightarrow>
      if on_gles plat c then
        case glGetUniformLocation drv (current_program c) n w of (location, w1) \<Rightarrow>
        if 0 \<le> location then glUniform2f location x y w1 else w1
      else w))"

definition gpu_context_set_uniform_vec3 ::
    "platform \<Rightarrow> driver \<Rightarrow> GpuContext option \<Rightarrow> string option \<Rightarrow> cfloat \<Rightarrow> cfloat \<Rightarrow>
       cfloat \<Rightarrow> world \<Rightarrow> world" where
  "gpu_context_set_uniform_vec3 plat drv ctx name x y z w =
     (case ctx of None \<Rightarrow> w | Some c \<Rightarrow>
      (case name of None \<Rightarrow> w | Some n \<Rightarrow>
      if on_gles plat c then
        case glGetUniformLocation drv (current_program c) n w of (location, w1) \<Rightarrow>
        if 0 \<le> location then glUniform3f location x y z w1 else w1
      else w))"

definition gpu_context_set_uniform_vec4 ::
    "platform \<Rightarrow> driver \<Rightarrow> GpuContext option \<Rightarrow> string option \<Rightarrow> cfloat \<Rightarrow> cfloat \<Rightarrow>
       cfloat \<Rightarrow> cfloat \<Rightarrow> world \<Rightarrow> world" where
  "gpu_context_set_uniform_vec4 plat drv ctx name x y z q w =
     (case ctx of None \<Rightarrow> w | Some c \<Rightarrow>
      (case name of None \<Rightarrow> w | Some n \<Rightarrow>
      if on_gles plat c then
        case glGetUniformLocation drv (current_program c) n w of (location, w1) \<Rightarrow>
        if 0 \<le> location then glUniform4f location x y z q w1 else w1
      else w))"

definition gpu_context_set_uniform_mat4 ::
    "platform \<Rightarrow> driver \<Rightarrow> GpuContext option \<Rightarrow> string option \<Rightarrow> cfloat list option \<Rightarrow>
       world \<Rightarrow> world" where
  "gpu_context_set_uniform_mat4 plat drv ctx name matrix w =
     (case ctx of None \<Rightarrow> w | Some c \<Rightarrow>
      (case name of None \<Rightarrow> w | Some n \<Rightarrow>
      (case matrix of None \<Rightarrow> w | Some m \<Rightarrow>
      if on_gles plat c then
        case glGetUniformLocation drv (current_program c) n w of (location, w1) \<Rightarrow>
        if 0 \<le> location then glUniformMatrix4fv location m w1 else w1
      else w)))"

text \<open>Lines 425-460: buffers.\<close>

definition gpu_context_create_buffer ::
    "platform \<Rightarrow> GpuContext option \<Rightarrow> cfloat list option \<Rightarrow> u32 \<Rightarrow> world \<Rightarrow>
       GpuBuffer \<times> world" where
  "gpu_context_create_buffer plat ctx data byte_size w =
     (case ctx of None \<Rightarrow> (0, w) | Some c \<Rightarrow>
      (case data of None \<Rightarrow> (0, w) | Some d \<Rightarrow>
      if on_gles plat c then
        case glGenBuffers w of (buffer, w1) \<Rightarrow>
        (buffer, glBufferData byte_size d (glBindBuffer buffer w1))
      else (0, w)))"

definition gpu_context_bind_buffer ::
    "platform \<Rightarrow> GpuContext option \<Rightarrow> GpuBuffer \<Rightarrow> world \<Rightarrow> world" where
  "gpu_context_bind_buffer plat ctx buffer w =
     (case ctx of
        None \<Rightarrow> w
      | Some c \<Rightarrow> if on_gles plat c then glBindBuffer buffer w else w)"

definition gpu_context_delete_buffer ::
    "platform \<Rightarrow> GpuContext option \<Rightarrow> GpuBuffer \<Rightarrow> world \<Rightarrow> world" where
  "gpu_context_delete_buffer plat ctx buffer w =
     (case ctx of
        None \<Rightarrow> w
      | Some c \<Rightarrow> if on_gles plat c then glDeleteBuffers buffer w else w)"

text \<open>Lines 462-500: textures.  The pixel data may be \<^verbatim>\<open>NULL\<close>.\<close>

definition gpu_context_create_texture ::
    "platform \<Rightarrow> GpuContext option \<Rightarrow> u32 \<Rightarrow> u32 \<Rightarrow> 8 word list option \<Rightarrow> world \<Rightarrow>
       GpuTexture \<times> world" where
  "gpu_context_create_texture plat ctx wd ht data w =
     (case ctx of None \<Rightarrow> (0, w) | Some c \<Rightarrow>
      if on_gles plat c then
        case glGenTextures w of (texture, w1) \<Rightarrow>
        (texture,
         glTexParameteri_MAG_FILTER_LINEAR
           (glTexParameteri_MIN_FILTER_LINEAR
             (glTexImage2D wd ht data (glBindTexture texture w1))))
      else (0, w))"

definition gpu_context_bind_texture ::
    "platform \<Rightarrow> GpuContext option \<Rightarrow> GpuTexture \<Rightarrow> u32 \<Rightarrow> world \<Rightarrow> world" where
  "gpu_context_bind_texture plat ctx texture slot w =
     (case ctx of
        None \<Rightarrow> w
      | Some c \<Rightarrow>
          if on_gles plat c
          then glBindTexture texture (glActiveTexture (GL_TEXTURE0 + slot) w)
          else w)"

definition gpu_context_delete_texture ::
    "platform \<Rightarrow> GpuContext option \<Rightarrow> GpuTexture \<Rightarrow> world \<Rightarrow> world" where
  "gpu_context_delete_texture plat ctx texture w =
     (case ctx of
        None \<Rightarrow> w
      | Some c \<Rightarrow> if on_gles plat c then glDeleteTextures texture w else w)"

section \<open>Effect passes and the render graph (\<^verbatim>\<open>passes.c\<close>)\<close>

text \<open>
  \<^verbatim>\<open>gpu_blur_pass\<close> (lines 19-32), \<^verbatim>\<open>gpu_shadow_pass\<close> (lines 34-50) and
  \<^verbatim>\<open>gpu_color_adjust_pass\<close> (lines 81-93): after the null checks the bodies hold only
  comments.
\<close>

definition gpu_blur_pass ::
    "GpuContext option \<Rightarrow> i32 \<Rightarrow> i32 \<Rightarrow> u32 \<Rightarrow> u32 \<Rightarrow> cfloat \<Rightarrow> i32 \<Rightarrow> world \<Rightarrow> world" where
  "gpu_blur_pass ctx x y wd ht radius samples w = (case ctx of None \<Rightarrow> w | Some c \<Rightarrow> w)"

definition gpu_shadow_pass ::
    "GpuContext option \<Rightarrow> i32 \<Rightarrow> i32 \<Rightarrow> u32 \<Rightarrow> u32 \<Rightarrow> cfloat \<Rightarrow> cfloat \<Rightarrow> cfloat list option \<Rightarrow>
       cfloat \<Rightarrow> cfloat \<Rightarrow> world \<Rightarrow> world" where
  "gpu_shadow_pass ctx x y wd ht offset_x offset_y color blur opacity w =
     (case ctx of None \<Rightarrow> w | Some c \<Rightarrow> (case color of None \<Rightarrow> w | Some col \<Rightarrow> w))"

definition gpu_color_adjust_pass ::
    "GpuContext option \<Rightarrow> i32 \<Rightarrow> i32 \<Rightarrow> u32 \<Rightarrow> u32 \<Rightarrow> cfloat \<Rightarrow> cfloat \<Rightarrow> cfloat \<Rightarrow>
       world \<Rightarrow> world" where
  "gpu_color_adjust_pass ctx x y wd ht brightness contrast saturation w =
     (case ctx of None \<Rightarrow> w | Some c \<Rightarrow> w)"

text \<open>
  \<^verbatim>\<open>gpu_composite_pass\<close>, lines 53-79.  It tests the pointer only, not the backend kind,
  and the \<^verbatim>\<open>switch\<close> has no \<^verbatim>\<open>default\<close>.
\<close>

definition gpu_composite_pass :: "platform \<Rightarrow> GpuContext option \<Rightarrow> i32 \<Rightarrow> world \<Rightarrow> world" where
  "gpu_composite_pass plat ctx blend_mode w =
     (case ctx of
        None \<Rightarrow> w
      | Some c \<Rightarrow>
          if HAS_OPENGL plat then
            let w1 = glEnable_BLEND w in
            if blend_mode = 0 then glBlendFunc GL_SRC_ALPHA GL_ONE_MINUS_SRC_ALPHA w1
            else if blend_mode = 1 then glBlendFunc GL_DST_COLOR GL_ZERO w1
            else if blend_mode = 2 then glBlendFunc GL_ONE GL_ONE_MINUS_SRC_COLOR w1
            else if blend_mode = 3 then glBlendFunc GL_SRC_ALPHA GL_ONE w1
            else w1
          else w)"

text \<open>
  Reading \<^verbatim>\<open>params[i]\<close> and \<^verbatim>\<open>nodes[i]\<close>: the arrays come without a length, and a read past
  the end is undefined behaviour, a fault of the model.  The conversion \<^verbatim>\<open>(int32_t)f\<close>
  truncates towards zero and is undefined when the result does not fit.
\<close>

datatype fault = NodeReadOutOfBounds | ParamReadOutOfBounds | FloatToIntUndefined

definition param_at :: "cfloat list \<Rightarrow> u32 \<Rightarrow> cfloat option" where
  "param_at params i = (if unat i < length params then Some (params ! unat i) else None)"

definition float_to_int32 :: "cfloat \<Rightarrow> i32 option" where
  "float_to_int32 f =
     (let t = (if 0 \<le> f then \<lfloor>f\<rfloor> else \<lceil>f\<rceil>) in
      if - (2 ^ 31) \<le> t \<and> t < 2 ^ 31 then Some (word_of_int t) else None)"

text \<open>
  The body of the \<^verbatim>\<open>switch\<close> (lines 133-171) on the pair of the backend state and
  \<^verbatim>\<open>param_offset\<close>.  The arguments of a call are read before the call is made.
\<close>

definition exec_node ::
    "platform \<Rightarrow> GpuContext option \<Rightarrow> cfloat list \<Rightarrow> i32 \<Rightarrow> world \<times> u32 \<Rightarrow>
       fault + world \<times> u32" where
  "exec_node plat ctx params node_type st =
     (case st of (w, param_offset) \<Rightarrow>
      if node_type = 0 then
        (case those [param_at params param_offset, param_at params (param_offset + 1),
                     param_at params (param_offset + 2), param_at params (param_offset + 3)] of
           Some [r, g, b, a] \<Rightarrow> Inr (gpu_context_clear plat ctx r g b a w, param_offset + 4)
         | _ \<Rightarrow> Inl ParamReadOutOfBounds)
      else if node_type = 1 then Inr (w, param_offset + 8)
      else if node_type = 2 then
        (case those [param_at params param_offset, param_at params (param_offset + 1)] of
           Some [radius, samples] \<Rightarrow>
             (case float_to_int32 samples of
                None \<Rightarrow> Inl FloatToIntUndefined
              | Some n \<Rightarrow> Inr (gpu_blur_pass ctx 0 0 0 0 radius n w, param_offset + 2))
         | _ \<Rightarrow> Inl ParamReadOutOfBounds)
      else if node_type = 3 then
        (case those [param_at params (param_offset + 2), param_at params (param_offset + 3),
                     param_at params (param_offset + 4), param_at params (param_offset + 5),
                     param_at params param_offset, param_at params (param_offset + 1),
                     param_at params (param_offset + 6), param_at params (param_offset + 7)] of
           Some [c0, c1, c2, c3, ox, oy, blur, opacity] \<Rightarrow>
             Inr (gpu_shadow_pass ctx 0 0 0 0 ox oy (Some [c0, c1, c2, c3]) blur opacity w,
                  param_offset + 8)
         | _ \<Rightarrow> Inl ParamReadOutOfBounds)
      else if node_type = 4 then
        (case param_at params param_offset of
           None \<Rightarrow> Inl ParamReadOutOfBounds
         | Some m \<Rightarrow>
             (case float_to_int32 m of
                None \<Rightarrow> Inl FloatToIntUndefined
              | Some mode \<Rightarrow> Inr (gpu_composite_pass plat ctx mode w, param_offset + 1)))
      else if node_type = 5 then
        (case those [param_at params param_offset, param_at params (param_offset + 1),
                     param_at params (param_offset + 2)] of
           Some [brightness, contrast, saturation] \<Rightarrow>
             Inr (gpu_color_adjust_pass ctx 0 0 0 0 brightness contrast saturation w,
                  param_offset + 3)
         | _ \<Rightarrow> Inl ParamReadOutOfBounds)
      else Inr (w, param_offset))"

text \<open>The \<^verbatim>\<open>for\<close> loop of lines 130-172, with the 32-bit counter \<open>i\<close>.\<close>

function exec_loop ::
    "platform \<Rightarrow> GpuContext option \<Rightarrow> i32 list \<Rightarrow> u32 \<Rightarrow> cfloat list \<Rightarrow> u32 \<Rightarrow> world \<times> u32 \<Rightarrow>
       fault + world \<times> u32" where
  "exec_loop plat ctx nodes node_count params i st =
     (if i < node_count then
        (if unat i < length nodes then
           (case exec_node plat ctx params (nodes ! unat i) st of
              Inl e \<Rightarrow> Inl e
            | Inr st' \<Rightarrow> exec_loop plat ctx nodes node_count params (i + 1) st')
         else Inl NodeReadOutOfBounds)
      else Inr st)"
  by pat_completeness auto
termination
proof (relation "measure (\<lambda>(plat, ctx, nodes, node_count, params, i, st).
                   unat node_count - unat i)")
  show "wf (measure (\<lambda>(plat, ctx, nodes, node_count, params, i, st).
                   unat node_count - unat i))"
    by simp
next
  fix plat :: platform and ctx :: "GpuContext option" and nodes :: "i32 list"
    and node_count :: u32 and params :: "cfloat list" and i :: u32
    and st st' :: "world \<times> u32"
  assume "i < node_count"
  then have "unat i < unat node_count"
    by (simp add: word_less_nat_alt)
  moreover have "unat node_count < 2 ^ 32"
    using unsigned_less [of node_count, where ?'a = nat] by simp
  ultimately have "unat i + unat (1 :: u32) < 2 ^ LENGTH(32)"
    by simp
  then have "unat (i + 1) = Suc (unat i)"
    by (simp add: unat_add_lem [THEN iffD1])
  with \<open>unat i < unat node_count\<close> show "((plat, ctx, nodes, node_count, params, i + 1, st'),
                    (plat, ctx, nodes, node_count, params, i, st))
      \<in> measure (\<lambda>(plat, ctx, nodes, node_count, params, i, st). unat node_count - unat i)"
    by simp
qed

text \<open>\<^verbatim>\<open>gpu_execute_render_graph\<close>, lines 119-173.\<close>

definition gpu_execute_render_graph ::
    "platform \<Rightarrow> GpuContext option \<Rightarrow> i32 list option \<Rightarrow> u32 \<Rightarrow> cfloat list option \<Rightarrow> world \<Rightarrow>
       fault + world" where
  "gpu_execute_render_graph plat ctx nodes node_count params w =
     (case ctx of None \<Rightarrow> Inr w | Some c \<Rightarrow>
      (case nodes of None \<Rightarrow> Inr w | Some ns \<Rightarrow>
      (case params of None \<Rightarrow> Inr w | Some ps \<Rightarrow>
      (case exec_loop plat ctx ns node_count ps 0 (w, 0) of
         Inl e \<Rightarrow> Inl e
       | Inr (w', param_offset) \<Rightarrow> Inr w'))))"

section \<open>Specification-side notions\<close>

text \<open>The backends whose probe was entered, in the order of the log.\<close>

primrec probed :: "api_call list \<Rightarrow> GpuBackendType list" where
  "probed [] = []"
| "probed (c # cs) = (case c of Probe b \<Rightarrow> b # probed cs | _ \<Rightarrow> probed cs)"

text \<open>The answers of the driver under which the OpenGL ES probe goes through.\<close>

definition gles_available :: "platform \<Rightarrow> driver \<Rightarrow> bool" where
  "gles_available plat drv \<longleftrightarrow>
     USE_EGL plat \<and> display_ok drv \<and> initialize_ok drv \<and> choose_config_ok drv \<and>
     create_surface_ok drv \<and> create_context_ok drv \<and> make_current_ok drv"

text \<open>The objects of the graphics library that are alive: the leak counters.\<close>

definition allocated ::
    "world \<Rightarrow> nat list \<times> nat list \<times> GLuint list \<times> GLuint list \<times> GLuint list \<times> GLuint list"
  where
  "allocated w =
     (live_surfaces w, live_contexts w, live_shaders w, live_programs w, live_buffers w,
      live_textures w)"

text \<open>
  Section 4.1 of the specification in its own words: the probes are tried in the order
  of the list, the first that succeeds is bound and ends the search, and creation fails
  when the list is exhausted.
\<close>

type_synonym probe = "GpuContext \<Rightarrow> world \<Rightarrow> bool \<times> GpuContext \<times> world"

fun first_success ::
    "(GpuBackendType \<times> probe) list \<Rightarrow> GpuContext \<Rightarrow> world \<Rightarrow>
       GpuBackendType option \<times> GpuContext \<times> world" where
  "first_success [] c w = (None, c, w)"
| "first_success ((b, p) # ps) c w =
     (case p c w of (ok, c', w') \<Rightarrow>
        if ok then (Some b, c', w') else first_success ps c' w')"

fun init_message :: "GpuBackendType \<Rightarrow> string" where
  "init_message GPU_BACKEND_VULKAN = ''GPU: Initialized Vulkan backend\<newline>''"
| "init_message GPU_BACKEND_OPENGL = ''GPU: Initialized OpenGL backend\<newline>''"
| "init_message GPU_BACKEND_OPENGLES = ''GPU: Initialized OpenGL ES backend\<newline>''"
| "init_message GPU_BACKEND_NONE =
     ''GPU: No hardware backend available, using CPU fallback\<newline>''"

definition negotiate ::
    "platform \<Rightarrow> driver \<Rightarrow> u32 \<Rightarrow> u32 \<Rightarrow> world \<Rightarrow> GpuContext option \<times> world" where
  "negotiate plat drv wd ht w =
     (case first_success
             [(GPU_BACKEND_VULKAN, try_init_vulkan),
              (GPU_BACKEND_OPENGL, try_init_opengl plat),
              (GPU_BACKEND_OPENGLES, try_init_opengles plat drv)]
             (zeroed_context\<lparr>width := wd, height := ht\<rparr>)
             (w\<lparr>heap_blocks := Suc (heap_blocks w)\<rparr>) of
        (Some b, c, w1) \<Rightarrow> (Some c, printf (init_message b) w1)
      | (None, c, w1) \<Rightarrow>
          (None, free_context (printf (init_message GPU_BACKEND_NONE) w1)))"

subsection \<open>Concrete inputs\<close>

definition good_driver :: driver where
  "good_driver =
     \<lparr>calloc_ok = True, display_ok = True, initialize_ok = True, choose_config_ok = True,
      create_surface_ok = True, create_context_ok = True, make_current_ok = True,
      get_string = (\<lambda>n. Some ''mesa''),
      compile_ok = (\<lambda>st src. src \<noteq> ''bad''),
      link_ok = (\<lambda>objs. True),
      info_log = (\<lambda>n. ''error''),
      uniform_location = (\<lambda>p name. if name = ''u_color'' then 3 else - 1)\<rparr>"

definition fresh_world :: world where
  "fresh_world =
     \<lparr>api_calls = [], next_name = 0, heap_blocks = 0, display_initialized = False,
      live_surfaces = [], live_contexts = [], current_binding = None, live_shaders = [],
      live_programs = [], live_buffers = [], live_textures = [],
      stage_of = (\<lambda>n. GL_VERTEX_SHADER), source_of = (\<lambda>n. []), attached_to = (\<lambda>n. []),
      blend_enabled = False, blend_src = GL_ONE, blend_dst = GL_ZERO\<rparr>"

text \<open>The blend-function configuration: the pair that \<^verbatim>\<open>glBlendFunc\<close> sets.\<close>

definition blend_func :: "world \<Rightarrow> blend_factor \<times> blend_factor" where
  "blend_func w = (blend_src w, blend_dst w)"

text \<open>
  Section 4.3 on uniform uploads, in its own words: the location is resolved by name
  against program \<open>p\<close>; an unresolved name (location below 0) is ignored, otherwise the
  value is uploaded to the location.
\<close>

definition resolve_then_upload ::
    "driver \<Rightarrow> GLuint \<Rightarrow> string \<Rightarrow> (GLint \<Rightarrow> uniform_call) \<Rightarrow> world \<Rightarrow> world" where
  "resolve_then_upload drv p name upload w =
     (let looked_up = emit (Uniform (GlGetUniformLocation p name)) w in
      if uniform_location drv p name < 0 then looked_up
      else emit (Uniform (upload (uniform_location drv p name))) looked_up)"

text \<open>The context that creation returns on Linux under \<open>good_driver\<close>.\<close>

definition good_context :: GpuContext where
  "good_context =
     \<lparr>backend_type = GPU_BACKEND_OPENGLES, width = 800, height = 600, egl_display = 1,
      egl_context = 2, egl_surface = 1, egl_config = 1, current_program = 0,
      device_name = ''mesa'', vendor_name = ''mesa'', driver_version = ''mesa''\<rparr>"

subsection \<open>The render graph, by blocks\<close>

text \<open>
  The loop of \<^verbatim>\<open>gpu_execute_render_graph\<close> as a recursion over the list of nodes; it
  is shown below to compute what \<open>exec_loop\<close> computes when \<^verbatim>\<open>node_count\<close> is the
  length of the node array.
\<close>

fun exec_nodes ::
    "platform \<Rightarrow> GpuContext option \<Rightarrow> cfloat list \<Rightarrow> i32 list \<Rightarrow> world \<times> u32 \<Rightarrow>
       fault + world \<times> u32" where
  "exec_nodes plat ctx params [] st = Inr st"
| "exec_nodes plat ctx params (t # ts) st =
     (case exec_node plat ctx params t st of
        Inl e \<Rightarrow> Inl e
      | Inr st' \<Rightarrow> exec_nodes plat ctx params ts st')"

text \<open>
  Sections 3 and 4.5 of the specification in their own words: each node type has a fixed
  arity (Clear 4, DrawRect 8, BlurPass 2, ShadowPass 8, CompositePass 1, ColorAdjust 3),
  a node is run on its own block of that many parameters, and the blocks follow one
  another in node order.  What a node does with its block is what the source calls for
  that type; for DrawRect the source calls nothing.  A tag outside 0 to 5 has no block.
\<close>

definition arity :: "i32 \<Rightarrow> nat" where
  "arity t =
     (if t = 0 then 4 else if t = 1 then 8 else if t = 2 then 2 else if t = 3 then 8
      else if t = 4 then 1 else if t = 5 then 3 else 0)"

definition total_arity :: "i32 list \<Rightarrow> nat" where
  "total_arity ts = sum_list (map arity ts)"

definition run_node ::
    "platform \<Rightarrow> GpuContext option \<Rightarrow> i32 \<Rightarrow> cfloat list \<Rightarrow> world \<Rightarrow> fault + world" where
  "run_node plat ctx t block w =
     (if t = 0 then
        (case block of
           [r, g, b, a] \<Rightarrow> Inr (gpu_context_clear plat ctx r g b a w)
         | _ \<Rightarrow> Inl ParamReadOutOfBounds)
      else if t = 1 then Inr w
      else if t = 2 then
        (case block of
           [radius, samples] \<Rightarrow>
             (case float_to_int32 samples of
                None \<Rightarrow> Inl FloatToIntUndefined
              | Some n \<Rightarrow> Inr (gpu_blur_pass ctx 0 0 0 0 radius n w))
         | _ \<Rightarrow> Inl ParamReadOutOfBounds)
      else if t = 3 then
        (case block of
           [ox, oy, c0, c1, c2, c3, blur, opacity] \<Rightarrow>
             Inr (gpu_shadow_pass ctx 0 0 0 0 ox oy (Some [c0, c1, c2, c3]) blur opacity w)
         | _ \<Rightarrow> Inl ParamReadOutOfBounds)
      else if t = 4 then
        (case block of
           [m] \<Rightarrow>
             (case float_to_int32 m of
                None \<Rightarrow> Inl FloatToIntUndefined
              | Some mode \<Rightarrow> Inr (gpu_composite_pass plat ctx mode w))
         | _ \<Rightarrow> Inl ParamReadOutOfBounds)
      else if t = 5 then
        (case block of
           [brightness, contrast, saturation] \<Rightarrow>
             Inr (gpu_color_adjust_pass ctx 0 0 0 0 brightness contrast saturation w)
         | _ \<Rightarrow> Inl ParamReadOutOfBounds)
      else Inr w)"

fun run_graph ::
    "platform \<Rightarrow> GpuContext option \<Rightarrow> i32 list \<Rightarrow> cfloat list \<Rightarrow> world \<Rightarrow> fault + world" where
  "run_graph plat ctx [] ps w = Inr w"
| "run_graph plat ctx (t # ts) ps w =
     (case run_node plat ctx t (take (arity t) ps) w of
        Inl e \<Rightarrow> Inl e
      | Inr w' \<Rightarrow> run_graph plat ctx ts (drop (arity t) ps) w')"

section \<open>Verification\<close>

subsection \<open>Backend negotiation\<close>

lemma probed_append: "probed (xs @ ys) = probed xs @ probed ys"
  by (induction xs) (auto split: api_call.splits)

lemmas egl_defs = eglGetDisplay_def eglInitialize_def eglChooseConfig_def
  eglCreatePbufferSurface_def eglCreateContext_def eglMakeCurrent_def eglDestroyContext_def
  eglDestroySurface_def eglTerminate_def eglSwapBuffers_def glGetString_def emit_def
  EGL_NO_DISPLAY_def EGL_NO_SURFACE_def EGL_NO_CONTEXT_def copy_device_info_def

lemma try_init_opengles_ok: "fst (try_init_opengles plat drv c w) = gles_available plat drv"
  by (simp add: try_init_opengles_def gles_available_def egl_defs Let_def split: prod.splits)

lemma try_init_opengles_backend:
  "try_init_opengles plat drv c w = (True, c', w') \<Longrightarrow>
     backend_type c' = GPU_BACKEND_OPENGLES"
  by (auto simp: try_init_opengles_def egl_defs Let_def
      split: prod.splits if_splits option.splits)

lemma try_init_opengles_heap:
  "try_init_opengles plat drv c w = (ok, c', w') \<Longrightarrow> heap_blocks w' = heap_blocks w"
  by (auto simp: try_init_opengles_def egl_defs Let_def
      split: prod.splits if_splits option.splits)

lemma try_init_opengles_clean:
  "try_init_opengles plat drv c w = (False, c', w') \<Longrightarrow>
     allocated w' = allocated w \<and> (display_initialized w' \<longrightarrow> display_initialized w)"
  by (auto simp: try_init_opengles_def egl_defs allocated_def Let_def
      split: prod.splits if_splits option.splits)

lemma try_init_opengles_probed:
  "try_init_opengles plat drv c w = (ok, c', w') \<Longrightarrow>
     probed (api_calls w') = probed (api_calls w) @ [GPU_BACKEND_OPENGLES]"
  by (auto simp: try_init_opengles_def egl_defs Let_def probed_append
      split: prod.splits if_splits option.splits)

lemma try_init_opengles_True:
  "try_init_opengles plat drv c w = (True, c', w') \<Longrightarrow>
     gles_available plat drv \<and> backend_type c' = GPU_BACKEND_OPENGLES \<and>
     heap_blocks w' = heap_blocks w \<and>
     probed (api_calls w') = probed (api_calls w) @ [GPU_BACKEND_OPENGLES]"
  using try_init_opengles_ok [of plat drv c w]
  by (simp add: try_init_opengles_backend
        try_init_opengles_heap [of plat drv c w True c' w']
        try_init_opengles_probed [of plat drv c w True c' w'])

lemma try_init_opengles_False:
  "try_init_opengles plat drv c w = (False, c', w') \<Longrightarrow>
     \<not> gles_available plat drv \<and> allocated w' = allocated w \<and>
     heap_blocks w' = heap_blocks w \<and> (display_initialized w' \<longrightarrow> display_initialized w) \<and>
     probed (api_calls w') = probed (api_calls w) @ [GPU_BACKEND_OPENGLES]"
  using try_init_opengles_ok [of plat drv c w]
  by (simp add: try_init_opengles_clean
        try_init_opengles_heap [of plat drv c w False c' w']
        try_init_opengles_probed [of plat drv c w False c' w'])

lemma create_refines_negotiate:
  "calloc_ok drv \<Longrightarrow> gpu_context_create plat drv wd ht w = negotiate plat drv wd ht w"
  by (simp add: gpu_context_create_def negotiate_def calloc_context_def zeroed_context_def
        try_init_vulkan_def try_init_opengl_def split: prod.splits)

lemma create_Some:
  "gpu_context_create plat drv wd ht w = (Some c, w') \<Longrightarrow>
     calloc_ok drv \<and> gles_available plat drv \<and> backend_type c = GPU_BACKEND_OPENGLES \<and>
     heap_blocks w' = Suc (heap_blocks w)"
  by (auto simp: gpu_context_create_def calloc_context_def try_init_vulkan_def
        try_init_opengl_def emit_def printf_def Let_def
      split: prod.splits if_splits
      dest!: try_init_opengles_True)

lemma create_None:
  "gpu_context_create plat drv wd ht w = (None, w') \<Longrightarrow>
     (\<not> calloc_ok drv \<or> \<not> gles_available plat drv) \<and>
     heap_blocks w' = heap_blocks w \<and> allocated w' = allocated w \<and>
     (display_initialized w' \<longrightarrow> display_initialized w)"
  by (auto simp: gpu_context_create_def calloc_context_def try_init_vulkan_def
        try_init_opengl_def emit_def printf_def free_context_def allocated_def Let_def
      split: prod.splits if_splits
      dest!: try_init_opengles_False)

lemma create_probed:
  "calloc_ok drv \<Longrightarrow> gpu_context_create plat drv wd ht w = (r, w') \<Longrightarrow>
     probed (api_calls w') =
       probed (api_calls w) @ [GPU_BACKEND_VULKAN, GPU_BACKEND_OPENGL, GPU_BACKEND_OPENGLES]"
  by (auto simp: gpu_context_create_def calloc_context_def try_init_vulkan_def
        try_init_opengl_def emit_def printf_def free_context_def probed_append Let_def
      split: prod.splits if_splits
      dest!: try_init_opengles_probed)

lemma stub_probes_fail:
  "try_init_vulkan c w = (False, c, emit (Probe GPU_BACKEND_VULKAN) w)"
  "fst (try_init_opengl plat c w) = False"
  "snd (snd (try_init_opengl plat c w)) = emit (Probe GPU_BACKEND_OPENGL) w"
  by (simp_all add: try_init_vulkan_def try_init_opengl_def Let_def)

lemma allocated_emit: "allocated (emit c w) = allocated w"
  by (simp add: allocated_def emit_def)

lemma created_good:
  "fst (gpu_context_create Linux good_driver 800 600 fresh_world) =
     Some \<lparr>backend_type = GPU_BACKEND_OPENGLES, width = 800, height = 600, egl_display = 1,
           egl_context = 2, egl_surface = 1, egl_config = 1, current_program = 0,
           device_name = ''mesa'', vendor_name = ''mesa'', driver_version = ''mesa''\<rparr>"
  by (simp add: gpu_context_create_def calloc_context_def zeroed_context_def
        try_init_vulkan_def try_init_opengl_def try_init_opengles_def egl_defs
        good_driver_def fresh_world_def strncpy_def printf_def)

text \<open>
  C4.  With the context block allocated, \<^verbatim>\<open>gpu_context_create\<close> is the search of
  section 4.1 over the probes Vulkan, desktop OpenGL, OpenGL ES in that order: the first
  probe that succeeds is bound to the returned context and ends the search, and the result
  is \<^verbatim>\<open>NULL\<close> when none succeeds.  The probes are entered in exactly that order.  In this
  source the Vulkan and desktop OpenGL probes always fail, so a context is returned exactly
  when the OpenGL ES probe goes through, and it is bound to OpenGL ES.  A probe that fails
  leaves the live objects of the graphics library as they were, and so does a creation that
  fails, which also gives the context block back.
\<close>

theorem gpu_context_create_priority_order:
  assumes "calloc_ok drv"
    and "gpu_context_create plat drv wd ht w = (r, w')"
  shows "(r, w') = negotiate plat drv wd ht w \<and>
     probed (api_calls w') =
       probed (api_calls w) @ [GPU_BACKEND_VULKAN, GPU_BACKEND_OPENGL, GPU_BACKEND_OPENGLES] \<and>
     (case r of
        Some c \<Rightarrow> gles_available plat drv \<and> backend_type c = GPU_BACKEND_OPENGLES
      | None \<Rightarrow> \<not> gles_available plat drv \<and> allocated w' = allocated w \<and>
          heap_blocks w' = heap_blocks w \<and>
          (display_initialized w' \<longrightarrow> display_initialized w)) \<and>
     (\<forall>c0 w0. \<not> fst (try_init_vulkan c0 w0) \<and>
        allocated (snd (snd (try_init_vulkan c0 w0))) = allocated w0) \<and>
     (\<forall>c0 w0. \<not> fst (try_init_opengl plat c0 w0) \<and>
        allocated (snd (snd (try_init_opengl plat c0 w0))) = allocated w0) \<and>
     (\<forall>c0 w0. \<not> fst (try_init_opengles plat drv c0 w0) \<longrightarrow>
        allocated (snd (snd (try_init_opengles plat drv c0 w0))) = allocated w0)"
proof -
  have refine: "(r, w') = negotiate plat drv wd ht w"
    using assms create_refines_negotiate [of drv plat wd ht w] by simp
  have order: "probed (api_calls w') =
      probed (api_calls w) @ [GPU_BACKEND_VULKAN, GPU_BACKEND_OPENGL, GPU_BACKEND_OPENGLES]"
    using assms by (rule create_probed)
  have outcome: "case r of
        Some c \<Rightarrow> gles_available plat drv \<and> backend_type c = GPU_BACKEND_OPENGLES
      | None \<Rightarrow> \<not> gles_available plat drv \<and> allocated w' = allocated w \<and>
          heap_blocks w' = heap_blocks w \<and>
          (display_initialized w' \<longrightarrow> display_initialized w)"
  proof (cases r)
    case None
    with assms create_None [of plat drv wd ht w w'] show ?thesis by simp
  next
    case (Some c)
    with assms create_Some [of plat drv wd ht w c w'] show ?thesis by simp
  qed
  have vulkan: "\<forall>c0 w0. \<not> fst (try_init_vulkan c0 w0) \<and>
        allocated (snd (snd (try_init_vulkan c0 w0))) = allocated w0"
    by (simp add: stub_probes_fail allocated_emit)
  have opengl: "\<forall>c0 w0. \<not> fst (try_init_opengl plat c0 w0) \<and>
        allocated (snd (snd (try_init_opengl plat c0 w0))) = allocated w0"
    by (simp add: stub_probes_fail allocated_emit)
  have gles: "\<forall>c0 w0. \<not> fst (try_init_opengles plat drv c0 w0) \<longrightarrow>
        allocated (snd (snd (try_init_opengles plat drv c0 w0))) = allocated w0"
  proof (intro allI impI)
    fix c0 w0
    assume "\<not> fst (try_init_opengles plat drv c0 w0)"
    then have "try_init_opengles plat drv c0 w0 =
        (False, fst (snd (try_init_opengles plat drv c0 w0)),
         snd (snd (try_init_opengles plat drv c0 w0)))"
      by (cases "try_init_opengles plat drv c0 w0") simp
    then show "allocated (snd (snd (try_init_opengles plat drv c0 w0))) = allocated w0"
      using try_init_opengles_clean by blast
  qed
  from refine order outcome vulkan opengl gles show ?thesis by blast
qed

theorem gpu_context_create_priority_order_witness:
  "calloc_ok good_driver \<and>
   probed (api_calls (snd (gpu_context_create Linux good_driver 800 600 fresh_world))) =
     [GPU_BACKEND_VULKAN, GPU_BACKEND_OPENGL, GPU_BACKEND_OPENGLES] \<and>
   gpu_context_get_backend (fst (gpu_context_create Linux good_driver 800 600 fresh_world)) =
     GPU_BACKEND_OPENGLES"
proof -
  have ok: "calloc_ok good_driver"
    by (simp add: good_driver_def)
  have run: "gpu_context_create Linux good_driver 800 600 fresh_world =
      (fst (gpu_context_create Linux good_driver 800 600 fresh_world),
       snd (gpu_context_create Linux good_driver 800 600 fresh_world))"
    by simp
  have "probed (api_calls fresh_world) = []"
    by (simp add: fresh_world_def)
  with gpu_context_create_priority_order [OF ok run] ok show ?thesis
    by (simp add: created_good gpu_context_get_backend_def)
qed

text \<open>
  C10.  Whatever the driver answers, \<^verbatim>\<open>gpu_context_create\<close> returns either \<^verbatim>\<open>NULL\<close>, with
  no context block left on the heap (the allocation failed or no backend initialized and
  the block was freed), or a context whose backend kind is not \<^verbatim>\<open>GPU_BACKEND_NONE\<close>, for
  which \<^verbatim>\<open>gpu_context_is_valid\<close> holds.
\<close>

theorem gpu_context_create_null_or_valid:
  assumes "gpu_context_create plat drv wd ht w = (r, w')"
  shows "case r of
        None \<Rightarrow> (\<not> calloc_ok drv \<or> \<not> gles_available plat drv) \<and>
          heap_blocks w' = heap_blocks w
      | Some c \<Rightarrow> backend_type c \<noteq> GPU_BACKEND_NONE \<and> gpu_context_is_valid r \<and>
          heap_blocks w' = Suc (heap_blocks w)"
proof (cases r)
  case None
  with assms create_None [of plat drv wd ht w w'] show ?thesis by simp
next
  case (Some c)
  with assms create_Some [of plat drv wd ht w c w'] show ?thesis
    by (simp add: gpu_context_is_valid_def)
qed

theorem gpu_context_create_null_or_valid_witness:
  "gpu_context_is_valid (fst (gpu_context_create Linux good_driver 800 600 fresh_world)) \<and>
   heap_blocks (snd (gpu_context_create Linux good_driver 800 600 fresh_world)) = 1"
proof -
  have run: "gpu_context_create Linux good_driver 800 600 fresh_world =
      (fst (gpu_context_create Linux good_driver 800 600 fresh_world),
       snd (gpu_context_create Linux good_driver 800 600 fresh_world))"
    by simp
  have "heap_blocks fresh_world = 0"
    by (simp add: fresh_world_def)
  with gpu_context_create_null_or_valid [OF run] show ?thesis
    by (simp add: created_good)
qed

subsection \<open>Per-call operations\<close>

lemmas gl_defs = glClearColor_def glClear_def glViewport_def glEnable_BLEND_def
  glBlendFunc_def glUseProgram_def glGetUniformLocation_def glUniform1f_def glUniform2f_def
  glUniform3f_def glUniform4f_def glUniformMatrix4fv_def

lemma created_on_gles:
  "gpu_context_create plat drv wd ht w = (Some c, w') \<Longrightarrow> on_gles plat c"
  using create_Some [of plat drv wd ht w c w']
  by (simp add: on_gles_def gles_available_def)

lemma good_context_on_gles: "on_gles Linux good_context"
  by (simp add: on_gles_def good_context_def)

lemma good_context_valid: "gpu_context_is_valid (Some good_context)"
  by (simp add: gpu_context_is_valid_def good_context_def)

lemma composite_modes:
  assumes "HAS_OPENGL plat"
  shows "blend_func (gpu_composite_pass plat (Some c) 0 w) =
      (GL_SRC_ALPHA, GL_ONE_MINUS_SRC_ALPHA)"
    and "blend_func (gpu_composite_pass plat (Some c) 1 w) = (GL_DST_COLOR, GL_ZERO)"
    and "blend_func (gpu_composite_pass plat (Some c) 2 w) = (GL_ONE, GL_ONE_MINUS_SRC_COLOR)"
    and "blend_func (gpu_composite_pass plat (Some c) 3 w) = (GL_SRC_ALPHA, GL_ONE)"
  using assms
  by (simp_all add: gpu_composite_pass_def blend_func_def gl_defs emit_def Let_def)

lemma composite_unknown:
  assumes "m \<noteq> 0" "m \<noteq> 1" "m \<noteq> 2" "m \<noteq> 3"
  shows "blend_func (gpu_composite_pass plat ctx m w) = blend_func w"
  using assms
  by (simp add: gpu_composite_pass_def blend_func_def gl_defs emit_def Let_def
      split: option.splits)

lemma composite_twice:
  "blend_func (gpu_composite_pass plat ctx m (gpu_composite_pass plat ctx m w)) =
     blend_func (gpu_composite_pass plat ctx m w)"
  by (simp add: gpu_composite_pass_def blend_func_def gl_defs emit_def Let_def
      split: option.splits)

lemma composite_known_state_free:
  "m \<in> {0, 1, 2, 3} \<Longrightarrow> HAS_OPENGL plat \<Longrightarrow>
   blend_func (gpu_composite_pass plat (Some c) m w) =
     blend_func (gpu_composite_pass plat (Some c) m w')"
  by (auto simp: gpu_composite_pass_def blend_func_def gl_defs emit_def Let_def)

text \<open>
  C6.  On a build with OpenGL and for a valid context, \<^verbatim>\<open>gpu_composite_pass\<close> sets the
  blend function to (source alpha, one minus source alpha) for mode 0, (destination colour,
  zero) for mode 1, (one, one minus source colour) for mode 2 and (source alpha, one) for
  mode 3.  A second call with the same mode leaves the configuration of the first call; for
  the modes 0 to 3 the configuration does not depend on the state before the call.  For any
  other mode the blend function stays what it was.  (A valid context only exists on a build
  with EGL, which has OpenGL.)
\<close>

theorem gpu_composite_pass_blend_modes:
  assumes "HAS_OPENGL plat" and "gpu_context_is_valid ctx"
  shows "blend_func (gpu_composite_pass plat ctx 0 w) = (GL_SRC_ALPHA, GL_ONE_MINUS_SRC_ALPHA) \<and>
     blend_func (gpu_composite_pass plat ctx 1 w) = (GL_DST_COLOR, GL_ZERO) \<and>
     blend_func (gpu_composite_pass plat ctx 2 w) = (GL_ONE, GL_ONE_MINUS_SRC_COLOR) \<and>
     blend_func (gpu_composite_pass plat ctx 3 w) = (GL_SRC_ALPHA, GL_ONE) \<and>
     blend_func (gpu_composite_pass plat ctx m (gpu_composite_pass plat ctx m w)) =
       blend_func (gpu_composite_pass plat ctx m w) \<and>
     (m \<in> {0, 1, 2, 3} \<longrightarrow>
        blend_func (gpu_composite_pass plat ctx m w) =
          blend_func (gpu_composite_pass plat ctx m w')) \<and>
     (m \<notin> {0, 1, 2, 3} \<longrightarrow> blend_func (gpu_composite_pass plat ctx m w) = blend_func w)"
proof -
  from assms(2) obtain c where ctx: "ctx = Some c"
    by (cases ctx) (simp_all add: gpu_context_is_valid_def)
  have known: "m \<in> {0, 1, 2, 3} \<longrightarrow>
        blend_func (gpu_composite_pass plat ctx m w) =
          blend_func (gpu_composite_pass plat ctx m w')"
    using composite_known_state_free [of m plat c w w'] assms(1) ctx by simp
  have unknown: "m \<notin> {0, 1, 2, 3} \<longrightarrow>
        blend_func (gpu_composite_pass plat ctx m w) = blend_func w"
    using composite_unknown [of m plat ctx w] by simp
  from known unknown show ?thesis
    using composite_modes [OF assms(1), of c w] composite_twice [of plat ctx m w] ctx
    by simp
qed

theorem gpu_composite_pass_blend_modes_witness:
  "HAS_OPENGL Linux \<and> gpu_context_is_valid (Some good_context) \<and>
   blend_func (gpu_composite_pass Linux (Some good_context) 2 fresh_world) =
     (GL_ONE, GL_ONE_MINUS_SRC_COLOR) \<and>
   blend_func (gpu_composite_pass Linux (Some good_context) 7
                 (gpu_composite_pass Linux (Some good_context) 2 fresh_world)) =
     (GL_ONE, GL_ONE_MINUS_SRC_COLOR)"
proof -
  have build: "HAS_OPENGL Linux"
    by simp
  have out: "(7 :: i32) \<notin> {0, 1, 2, 3}"
    by simp
  note first = gpu_composite_pass_blend_modes [OF build good_context_valid,
      of fresh_world 7 fresh_world]
  note second = gpu_composite_pass_blend_modes [OF build good_context_valid,
      of "gpu_composite_pass Linux (Some good_context) 2 fresh_world" 7 fresh_world]
  have screen: "blend_func (gpu_composite_pass Linux (Some good_context) 2 fresh_world) =
      (GL_ONE, GL_ONE_MINUS_SRC_COLOR)"
    using first by blast
  have kept: "blend_func (gpu_composite_pass Linux (Some good_context) 7
                 (gpu_composite_pass Linux (Some good_context) 2 fresh_world)) =
      blend_func (gpu_composite_pass Linux (Some good_context) 2 fresh_world)"
    using second out by blast
  show ?thesis
    using build good_context_valid screen kept by simp
qed

lemma created_is_good_context:
  "fst (gpu_context_create Linux good_driver 800 600 fresh_world) = Some good_context"
  by (simp add: created_good good_context_def)

text \<open>
  C7.  Each of the listed operations (clear, viewport, present; shader, buffer and texture
  create, bind or use, delete; the five uniform uploads), called with a context that is
  null or not valid, returns without any call into the graphics library: the backend state
  and the context come back unchanged and the creating operations return handle 0.  The
  operations are total, so there is no fault either.  The four effect passes of
  \<^verbatim>\<open>passes.c\<close> test the pointer only; with a null context they too change nothing.
\<close>

theorem invalid_context_operations_are_noops:
  assumes "\<not> gpu_context_is_valid ctx"
  shows "gpu_context_clear plat ctx r g b a w = w \<and>
     gpu_context_viewport plat ctx x y wd ht w = (ctx, w) \<and>
     gpu_context_present plat ctx w = w \<and>
     gpu_context_create_shader plat drv ctx vsrc fsrc w = (0, w) \<and>
     gpu_context_use_shader plat ctx sh w = (ctx, w) \<and>
     gpu_context_delete_shader plat ctx sh w = w \<and>
     gpu_context_create_buffer plat ctx data sz w = (0, w) \<and>
     gpu_context_bind_buffer plat ctx buf w = w \<and>
     gpu_context_delete_buffer plat ctx buf w = w \<and>
     gpu_context_create_texture plat ctx wd ht pixels w = (0, w) \<and>
     gpu_context_bind_texture plat ctx tex slot w = w \<and>
     gpu_context_delete_texture plat ctx tex w = w \<and>
     gpu_context_set_uniform_float plat drv ctx name v1 w = w \<and>
     gpu_context_set_uniform_vec2 plat drv ctx name v1 v2 w = w \<and>
     gpu_context_set_uniform_vec3 plat drv ctx name v1 v2 v3 w = w \<and>
     gpu_context_set_uniform_vec4 plat drv ctx name v1 v2 v3 v4 w = w \<and>
     gpu_context_set_uniform_mat4 plat drv ctx name matrix w = w \<and>
     (ctx = None \<longrightarrow>
        gpu_blur_pass ctx x y wd ht v1 mode w = w \<and>
        gpu_shadow_pass ctx x y wd ht v1 v2 color v3 v4 w = w \<and>
        gpu_composite_pass plat ctx mode w = w \<and>
        gpu_color_adjust_pass ctx x y wd ht v1 v2 v3 w = w)"
proof (cases ctx)
  case None
  then show ?thesis
    by (simp add: gpu_blur_pass_def gpu_shadow_pass_def gpu_composite_pass_def
          gpu_color_adjust_pass_def gpu_context_clear_def gpu_context_viewport_def gpu_context_present_def
          gpu_context_create_shader_def gpu_context_use_shader_def
          gpu_context_delete_shader_def gpu_context_create_buffer_def
          gpu_context_bind_buffer_def gpu_context_delete_buffer_def
          gpu_context_create_texture_def gpu_context_bind_texture_def
          gpu_context_delete_texture_def gpu_context_set_uniform_float_def
          gpu_context_set_uniform_vec2_def gpu_context_set_uniform_vec3_def
          gpu_context_set_uniform_vec4_def gpu_context_set_uniform_mat4_def)
next
  case (Some c)
  with assms have "\<not> on_gles plat c"
    by (simp add: gpu_context_is_valid_def on_gles_def)
  with Some show ?thesis
    by (simp add: gpu_context_clear_def gpu_context_viewport_def gpu_context_present_def
          gpu_context_create_shader_def gpu_context_use_shader_def
          gpu_context_delete_shader_def gpu_context_create_buffer_def
          gpu_context_bind_buffer_def gpu_context_delete_buffer_def
          gpu_context_create_texture_def gpu_context_bind_texture_def
          gpu_context_delete_texture_def gpu_context_set_uniform_float_def
          gpu_context_set_uniform_vec2_def gpu_context_set_uniform_vec3_def
          gpu_context_set_uniform_vec4_def gpu_context_set_uniform_mat4_def
        split: option.splits)
qed

theorem invalid_context_operations_are_noops_witness:
  "\<not> gpu_context_is_valid None \<and> \<not> gpu_context_is_valid (Some zeroed_context) \<and>
   gpu_context_clear Linux None 0 0 0 1 fresh_world = fresh_world \<and>
   gpu_context_clear Linux (Some zeroed_context) 0 0 0 1 fresh_world = fresh_world \<and>
   gpu_context_create_shader Linux good_driver (Some zeroed_context) (Some ''v'') (Some ''f'')
     fresh_world = (0, fresh_world) \<and>
   gpu_context_use_shader Linux (Some zeroed_context) 5 fresh_world =
     (Some zeroed_context, fresh_world)"
proof -
  have null: "\<not> gpu_context_is_valid None"
    by (simp add: gpu_context_is_valid_def)
  have none: "\<not> gpu_context_is_valid (Some zeroed_context)"
    by (simp add: gpu_context_is_valid_def zeroed_context_def)
  note at_null = invalid_context_operations_are_noops [OF null,
      where plat = Linux and w = fresh_world and r = 0 and g = 0 and b = 0 and a = 1]
  note at_none = invalid_context_operations_are_noops [OF none,
      where plat = Linux and w = fresh_world and r = 0 and g = 0 and b = 0 and a = 1
        and drv = good_driver and vsrc = "Some ''v''" and fsrc = "Some ''f''" and sh = 5]
  have c1: "gpu_context_clear Linux None 0 0 0 1 fresh_world = fresh_world"
    by (rule at_null [THEN conjunct1])
  have c2: "gpu_context_clear Linux (Some zeroed_context) 0 0 0 1 fresh_world = fresh_world"
    by (rule at_none [THEN conjunct1])
  have c3: "gpu_context_create_shader Linux good_driver (Some zeroed_context) (Some ''v'')
      (Some ''f'') fresh_world = (0, fresh_world)"
    by (rule at_none [THEN conjunct2, THEN conjunct2, THEN conjunct2, THEN conjunct1])
  have c4: "gpu_context_use_shader Linux (Some zeroed_context) 5 fresh_world =
      (Some zeroed_context, fresh_world)"
    by (rule at_none [THEN conjunct2, THEN conjunct2, THEN conjunct2, THEN conjunct2,
          THEN conjunct1])
  from null none c1 c2 c3 c4 show ?thesis
    by blast
qed

lemma use_shader_gles:
  "on_gles plat c \<Longrightarrow> gpu_context_use_shader plat (Some c) p w =
     (Some (c\<lparr>current_program := p\<rparr>), emit (Shader (GlUseProgram p)) w)"
  by (simp add: gpu_context_use_shader_def gl_defs)

lemma on_gles_current_program [simp]:
  "on_gles plat (c\<lparr>current_program := p\<rparr>) = on_gles plat c"
  by (simp add: on_gles_def)

text \<open>
  C8.  On a valid context (an OpenGL ES context on a build with EGL; every context that
  \<^verbatim>\<open>gpu_context_create\<close> returns is one) each of the five uniform uploads looks the name
  up with \<^verbatim>\<open>glGetUniformLocation\<close> against the program stored in the context, which is
  the handle of the most recent \<^verbatim>\<open>gpu_context_use_shader\<close>; the uploads take no program
  handle.  A location below 0 ends the call after the lookup, with nothing uploaded;
  otherwise the value goes to that location.
\<close>

theorem uniform_upload_targets_bound_program:
  assumes "on_gles plat c"
  shows "gpu_context_is_valid (Some c) \<and>
     gpu_context_set_uniform_float plat drv (Some c) (Some n) x w =
       resolve_then_upload drv (current_program c) n (\<lambda>l. GlUniform1f l x) w \<and>
     gpu_context_set_uniform_vec2 plat drv (Some c) (Some n) x y w =
       resolve_then_upload drv (current_program c) n (\<lambda>l. GlUniform2f l x y) w \<and>
     gpu_context_set_uniform_vec3 plat drv (Some c) (Some n) x y z w =
       resolve_then_upload drv (current_program c) n (\<lambda>l. GlUniform3f l x y z) w \<and>
     gpu_context_set_uniform_vec4 plat drv (Some c) (Some n) x y z q w =
       resolve_then_upload drv (current_program c) n (\<lambda>l. GlUniform4f l x y z q) w \<and>
     gpu_context_set_uniform_mat4 plat drv (Some c) (Some n) (Some m) w =
       resolve_then_upload drv (current_program c) n (\<lambda>l. GlUniformMatrix4fv l m) w \<and>
     snd (gpu_context_use_shader plat (Some c) sh w) = emit (Shader (GlUseProgram sh)) w \<and>
     gpu_context_set_uniform_float plat drv (fst (gpu_context_use_shader plat (Some c) sh w))
         (Some n) x w' =
       resolve_then_upload drv sh n (\<lambda>l. GlUniform1f l x) w' \<and>
     gpu_context_set_uniform_vec2 plat drv (fst (gpu_context_use_shader plat (Some c) sh w))
         (Some n) x y w' =
       resolve_then_upload drv sh n (\<lambda>l. GlUniform2f l x y) w' \<and>
     gpu_context_set_uniform_vec3 plat drv (fst (gpu_context_use_shader plat (Some c) sh w))
         (Some n) x y z w' =
       resolve_then_upload drv sh n (\<lambda>l. GlUniform3f l x y z) w' \<and>
     gpu_context_set_uniform_vec4 plat drv (fst (gpu_context_use_shader plat (Some c) sh w))
         (Some n) x y z q w' =
       resolve_then_upload drv sh n (\<lambda>l. GlUniform4f l x y z q) w' \<and>
     gpu_context_set_uniform_mat4 plat drv (fst (gpu_context_use_shader plat (Some c) sh w))
         (Some n) (Some m) w' =
       resolve_then_upload drv sh n (\<lambda>l. GlUniformMatrix4fv l m) w' \<and>
     (uniform_location drv (current_program c) n < 0 \<longrightarrow>
        resolve_then_upload drv (current_program c) n upload w =
          emit (Uniform (GlGetUniformLocation (current_program c) n)) w)"
proof -
  have valid: "gpu_context_is_valid (Some c)"
    using assms by (simp add: gpu_context_is_valid_def on_gles_def)
  have direct: "gpu_context_set_uniform_float plat drv (Some c') (Some n) x v =
       resolve_then_upload drv p n (\<lambda>l. GlUniform1f l x) v \<and>
     gpu_context_set_uniform_vec2 plat drv (Some c') (Some n) x y v =
       resolve_then_upload drv p n (\<lambda>l. GlUniform2f l x y) v \<and>
     gpu_context_set_uniform_vec3 plat drv (Some c') (Some n) x y z v =
       resolve_then_upload drv p n (\<lambda>l. GlUniform3f l x y z) v \<and>
     gpu_context_set_uniform_vec4 plat drv (Some c') (Some n) x y z q v =
       resolve_then_upload drv p n (\<lambda>l. GlUniform4f l x y z q) v \<and>
     gpu_context_set_uniform_mat4 plat drv (Some c') (Some n) (Some m) v =
       resolve_then_upload drv p n (\<lambda>l. GlUniformMatrix4fv l m) v"
    if "on_gles plat c'" and "current_program c' = p" for c' v p
    using that
    by (auto simp: gpu_context_set_uniform_float_def gpu_context_set_uniform_vec2_def
          gpu_context_set_uniform_vec3_def gpu_context_set_uniform_vec4_def
          gpu_context_set_uniform_mat4_def resolve_then_upload_def gl_defs Let_def)
  have ignored: "uniform_location drv (current_program c) n < 0 \<longrightarrow>
        resolve_then_upload drv (current_program c) n upload w =
          emit (Uniform (GlGetUniformLocation (current_program c) n)) w"
    by (simp add: resolve_then_upload_def)
  have use: "gpu_context_use_shader plat (Some c) sh w =
      (Some (c\<lparr>current_program := sh\<rparr>), emit (Shader (GlUseProgram sh)) w)"
    using assms by (rule use_shader_gles)
  have bound: "on_gles plat (c\<lparr>current_program := sh\<rparr>)"
    using assms by simp
  have now: "current_program (c\<lparr>current_program := sh\<rparr>) = sh"
    by simp
  have logged: "snd (gpu_context_use_shader plat (Some c) sh w) =
      emit (Shader (GlUseProgram sh)) w"
    by (simp only: use snd_conv)
  note d1 = direct [OF assms refl, of w]
  note d2 = direct [OF bound now, of w']
  show ?thesis
    unfolding use fst_conv
    using valid d1 d2 logged [unfolded use] ignored by blast
qed

theorem uniform_upload_targets_bound_program_witness:
  "on_gles Linux good_context \<and>
   api_calls (gpu_context_set_uniform_float Linux good_driver
                (fst (gpu_context_use_shader Linux (Some good_context) 9 fresh_world))
                (Some ''u_color'') 1
                (snd (gpu_context_use_shader Linux (Some good_context) 9 fresh_world))) =
     [Shader (GlUseProgram 9), Uniform (GlGetUniformLocation 9 ''u_color''),
      Uniform (GlUniform1f 3 1)] \<and>
   api_calls (gpu_context_set_uniform_float Linux good_driver (Some good_context)
                (Some ''u_missing'') 1 fresh_world) =
     [Uniform (GlGetUniformLocation 0 ''u_missing'')]"
proof -
  have loc: "uniform_location good_driver 9 ''u_color'' = 3"
    "uniform_location good_driver 0 ''u_missing'' = - 1"
    by (simp_all add: good_driver_def)
  have cur: "current_program good_context = 0"
    by (simp add: good_context_def)
  have log: "api_calls fresh_world = []"
    by (simp add: fresh_world_def)
  note after_use = uniform_upload_targets_bound_program [OF good_context_on_gles,
      where drv = good_driver and n = "''u_color''" and x = 1 and w = fresh_world
        and sh = 9
        and w' = "snd (gpu_context_use_shader Linux (Some good_context) 9 fresh_world)"]
  note unbound = uniform_upload_targets_bound_program [OF good_context_on_gles,
      where drv = good_driver and n = "''u_missing''" and x = 1 and w = fresh_world]
  have bound: "gpu_context_set_uniform_float Linux good_driver
                (fst (gpu_context_use_shader Linux (Some good_context) 9 fresh_world))
                (Some ''u_color'') 1
                (snd (gpu_context_use_shader Linux (Some good_context) 9 fresh_world)) =
      resolve_then_upload good_driver 9 ''u_color'' (\<lambda>l. GlUniform1f l 1)
        (snd (gpu_context_use_shader Linux (Some good_context) 9 fresh_world))"
    using after_use by blast
  have logged: "snd (gpu_context_use_shader Linux (Some good_context) 9 fresh_world) =
      emit (Shader (GlUseProgram 9)) fresh_world"
    using after_use by blast
  have missing: "gpu_context_set_uniform_float Linux good_driver (Some good_context)
                (Some ''u_missing'') 1 fresh_world =
      resolve_then_upload good_driver 0 ''u_missing'' (\<lambda>l. GlUniform1f l 1) fresh_world"
    using unbound unfolding cur by blast
  show ?thesis
    apply (simp only: bound missing)
    apply (simp add: good_context_on_gles logged resolve_then_upload_def emit_def loc log)
    done
qed

subsection \<open>The render graph\<close>

lemma unat_succ_below: "(i :: u32) < n \<Longrightarrow> unat (i + 1) = Suc (unat i)"
proof -
  assume "i < n"
  then have "unat i < unat n"
    by (simp add: word_less_nat_alt)
  moreover have "unat n < 2 ^ 32"
    using unsigned_less [of n, where ?'a = nat] by simp
  ultimately have "unat i + unat (1 :: u32) < 2 ^ LENGTH(32)"
    by simp
  then show ?thesis
    by (simp add: unat_add_lem [THEN iffD1])
qed

lemma exec_loop_as_fold:
  "unat n \<le> length nodes \<Longrightarrow> i \<le> n \<Longrightarrow>
   exec_loop plat ctx nodes n ps i st =
     exec_nodes plat ctx ps (drop (unat i) (take (unat n) nodes)) st"
proof (induction plat ctx nodes n ps i st rule: exec_loop.induct)
  case (1 plat ctx nodes n ps i st)
  show ?case
  proof (cases "i < n")
    case True
    then have lt: "unat i < unat n"
      by (simp add: word_less_nat_alt)
    with "1.prems" have inb: "unat i < length nodes"
      by simp
    have suc: "unat (i + 1) = Suc (unat i)"
      using True by (rule unat_succ_below)
    have le: "i + 1 \<le> n"
      using lt suc by (simp add: word_le_nat_alt)
    have split: "drop (unat i) (take (unat n) nodes) =
        nodes ! unat i # drop (Suc (unat i)) (take (unat n) nodes)"
      using lt inb by (simp add: Cons_nth_drop_Suc [symmetric])
    show ?thesis
    proof (cases "exec_node plat ctx ps (nodes ! unat i) st")
      case (Inl e)
      with True inb split show ?thesis
        by (subst exec_loop.simps) simp
    next
      case (Inr st')
      have "exec_loop plat ctx nodes n ps (i + 1) st' =
          exec_nodes plat ctx ps (drop (unat (i + 1)) (take (unat n) nodes)) st'"
        using "1.IH" [OF True inb Inr "1.prems"(1) le] .
      with True inb split Inr suc show ?thesis
        by (subst exec_loop.simps) simp
    qed
  next
    case False
    with "1.prems" have "unat i = unat n"
      by (simp add: word_le_nat_alt word_less_nat_alt)
    with False show ?thesis
      by (subst exec_loop.simps) simp
  qed
qed

lemma exec_node_unknown:
  "t \<notin> {0, 1, 2, 3, 4, 5} \<Longrightarrow> exec_node plat ctx ps t st = Inr st"
  by (cases st) (simp add: exec_node_def)

lemma exec_nodes_append:
  "exec_nodes plat ctx ps (xs @ ys) st =
     (case exec_nodes plat ctx ps xs st of
        Inl e \<Rightarrow> Inl e
      | Inr st' \<Rightarrow> exec_nodes plat ctx ps ys st')"
  by (induction xs arbitrary: st) (auto split: sum.splits)

lemma graph_as_fold:
  assumes "length ns < 2 ^ 32"
  shows "gpu_execute_render_graph plat (Some c) (Some ns) (of_nat (length ns)) (Some ps) w =
     (case exec_nodes plat (Some c) ps ns (w, 0) of
        Inl e \<Rightarrow> Inl e
      | Inr st \<Rightarrow> Inr (fst st))"
proof -
  have "unat (of_nat (length ns) :: u32) = length ns"
    using assms by (simp add: unat_of_nat)
  then have "exec_loop plat (Some c) ns (of_nat (length ns)) ps 0 (w, 0) =
      exec_nodes plat (Some c) ps ns (w, 0)"
    using exec_loop_as_fold [of "of_nat (length ns)" ns 0 plat "Some c" ps "(w, 0)"]
    by simp
  then show ?thesis
    by (simp add: gpu_execute_render_graph_def split: sum.splits prod.splits)
qed

lemma param_at_off:
  "k + j < length ps \<Longrightarrow> k + j < 2 ^ 32 \<Longrightarrow>
   param_at ps (of_nat k + of_nat j) = Some (ps ! (k + j))"
proof -
  assume a: "k + j < length ps" and b: "k + j < 2 ^ 32"
  have u: "unat (of_nat (k + j) :: u32) = k + j"
    using b by (simp add: unat_of_nat del: of_nat_add)
  show ?thesis
    by (simp only: of_nat_add [symmetric] param_at_def u a if_True)
qed

lemma total_arity_Cons: "total_arity (t # ts) = arity t + total_arity ts"
  by (simp add: total_arity_def)

lemma param_at_0:
  "k < length ps \<Longrightarrow> k < 2 ^ 32 \<Longrightarrow> param_at ps (of_nat k) = Some (ps ! k)"
  using param_at_off [of k 0 ps] by simp

lemmas param_at_num =
  param_at_0
  param_at_off [of _ 1, simplified]
  param_at_off [of _ 2, simplified]
  param_at_off [of _ 3, simplified]
  param_at_off [of _ 4, simplified]
  param_at_off [of _ 5, simplified]
  param_at_off [of _ 6, simplified]
  param_at_off [of _ 7, simplified]

lemma take_drop_Suc:
  "k < length ps \<Longrightarrow> take (Suc n) (drop k ps) = ps ! k # take n (drop (Suc k) ps)"
  by (simp add: Cons_nth_drop_Suc [symmetric])

lemma block1: "k + 1 \<le> length ps \<Longrightarrow> take (Suc 0) (drop k ps) = [ps ! k]"
  using take_drop_Suc [of k ps 0] by simp

lemma block2: "k + 2 \<le> length ps \<Longrightarrow> take 2 (drop k ps) = [ps ! k, ps ! (k + 1)]"
  using take_drop_Suc [of k ps 1] block1 [of "Suc k" ps] by (simp add: numeral_2_eq_2)

lemma block3:
  "k + 3 \<le> length ps \<Longrightarrow> take 3 (drop k ps) = [ps ! k, ps ! (k + 1), ps ! (k + 2)]"
  using take_drop_Suc [of k ps 2] block2 [of "Suc k" ps] by (simp add: numeral_3_eq_3)

lemma block4:
  "k + 4 \<le> length ps \<Longrightarrow>
   take 4 (drop k ps) = [ps ! k, ps ! (k + 1), ps ! (k + 2), ps ! (k + 3)]"
  using take_drop_Suc [of k ps 3] block3 [of "Suc k" ps]
  by (simp add: eval_nat_numeral)

lemma block8:
  "k + 8 \<le> length ps \<Longrightarrow>
   take 8 (drop k ps) =
     [ps ! k, ps ! (k + 1), ps ! (k + 2), ps ! (k + 3), ps ! (k + 4), ps ! (k + 5),
      ps ! (k + 6), ps ! (k + 7)]"
  using take_drop_Suc [of k ps 7] take_drop_Suc [of "k + 1" ps 6]
    take_drop_Suc [of "k + 2" ps 5] take_drop_Suc [of "k + 3" ps 4]
    block4 [of "k + 4" ps]
  by (simp add: eval_nat_numeral)

lemma of_nat_plus_num:
  "(of_nat (k + 1) :: u32) = of_nat k + 1"
  "(of_nat (k + 2) :: u32) = of_nat k + 2"
  "(of_nat (k + 3) :: u32) = of_nat k + 3"
  "(of_nat (k + 4) :: u32) = of_nat k + 4"
  "(of_nat (k + 8) :: u32) = of_nat k + 8"
  by simp_all

lemma exec_node_block:
  assumes "k + arity t \<le> length ps" and "k + arity t < 2 ^ 32"
  shows "exec_node plat ctx ps t (w, of_nat k) =
     (case run_node plat ctx t (take (arity t) (drop k ps)) w of
        Inl e \<Rightarrow> Inl e
      | Inr w' \<Rightarrow> Inr (w', of_nat (k + arity t)))"
proof -
  consider "t = 0" | "t = 1" | "t = 2" | "t = 3" | "t = 4" | "t = 5"
    | "t \<notin> {0, 1, 2, 3, 4, 5}"
    by auto
  then show ?thesis
  proof cases
    case 1
    with assms have "k + 4 \<le> length ps" "k + 4 < 2 ^ 32"
      by (simp_all add: arity_def)
    with 1 show ?thesis
      by (simp add: exec_node_def run_node_def arity_def param_at_num block4)
  next
    case 2
    then show ?thesis
      by (simp add: exec_node_def run_node_def arity_def)
  next
    case 3
    with assms have "k + 2 \<le> length ps" "k + 2 < 2 ^ 32"
      by (simp_all add: arity_def)
    with 3 show ?thesis
      by (simp add: exec_node_def run_node_def arity_def param_at_num block2
          split: option.splits)
  next
    case 4
    with assms have "k + 8 \<le> length ps" "k + 8 < 2 ^ 32"
      by (simp_all add: arity_def)
    with 4 show ?thesis
      by (simp add: exec_node_def run_node_def arity_def param_at_num block8)
  next
    case 5
    with assms have "k + 1 \<le> length ps" "k + 1 < 2 ^ 32"
      by (simp_all add: arity_def)
    then show ?thesis
      unfolding \<open>t = 4\<close>
      by (simp add: exec_node_def run_node_def arity_def param_at_num block1
          split: option.splits)
  next
    case 6
    with assms have "k + 3 \<le> length ps" "k + 3 < 2 ^ 32"
      by (simp_all add: arity_def)
    with 6 show ?thesis
      by (simp add: exec_node_def run_node_def arity_def param_at_num block3)
  next
    case 7
    then show ?thesis
      by (simp add: exec_node_def run_node_def arity_def)
  qed
qed

lemma exec_nodes_refine:
  "k + total_arity ts \<le> length ps \<Longrightarrow> k + total_arity ts < 2 ^ 32 \<Longrightarrow>
   exec_nodes plat ctx ps ts (w, of_nat k) =
     (case run_graph plat ctx ts (drop k ps) w of
        Inl e \<Rightarrow> Inl e
      | Inr w' \<Rightarrow> Inr (w', of_nat (k + total_arity ts)))"
proof (induction ts arbitrary: k w)
  case Nil
  then show ?case
    by (simp add: total_arity_def)
next
  case (Cons t ts)
  from Cons.prems have here: "k + arity t \<le> length ps" "k + arity t < 2 ^ 32"
    by (simp_all add: total_arity_Cons)
  from Cons.prems have rest: "(k + arity t) + total_arity ts \<le> length ps"
      "(k + arity t) + total_arity ts < 2 ^ 32"
    by (simp_all add: total_arity_Cons)
  have step: "exec_node plat ctx ps t (w, of_nat k) =
     (case run_node plat ctx t (take (arity t) (drop k ps)) w of
        Inl e \<Rightarrow> Inl e
      | Inr w' \<Rightarrow> Inr (w', of_nat (k + arity t)))"
    using here by (rule exec_node_block)
  show ?case
  proof (cases "run_node plat ctx t (take (arity t) (drop k ps)) w")
    case (Inl e)
    with step show ?thesis by simp
  next
    case (Inr w1)
    have "exec_nodes plat ctx ps ts (w1, of_nat (k + arity t)) =
        (case run_graph plat ctx ts (drop (k + arity t) ps) w1 of
           Inl e \<Rightarrow> Inl e
         | Inr w' \<Rightarrow> Inr (w', of_nat (k + arity t + total_arity ts)))"
      using rest by (rule Cons.IH)
    with step Inr show ?thesis
      by (simp add: total_arity_Cons add.assoc add.commute [of "arity t" k]
          split: sum.splits)
  qed
qed

lemma run_graph_surplus:
  "total_arity ts \<le> length ps \<Longrightarrow>
   run_graph plat ctx ts (take (total_arity ts) ps) w = run_graph plat ctx ts ps w"
proof (induction ts arbitrary: ps w)
  case Nil
  then show ?case by simp
next
  case (Cons t ts)
  have a: "take (arity t) (take (total_arity (t # ts)) ps) = take (arity t) ps"
    by (simp add: total_arity_def min_def)
  have b: "drop (arity t) (take (total_arity (t # ts)) ps) =
      take (total_arity ts) (drop (arity t) ps)"
    by (simp add: total_arity_def drop_take)
  from Cons.prems have "total_arity ts \<le> length (drop (arity t) ps)"
    by (simp add: total_arity_def)
  then have "run_graph plat ctx ts (take (total_arity ts) (drop (arity t) ps)) w' =
      run_graph plat ctx ts (drop (arity t) ps) w'" for w'
    by (rule Cons.IH)
  then show ?case
    by (simp add: a b del: take_take split: sum.splits)
qed

lemma graph_refines_blocks:
  assumes "length ns < 2 ^ 32" and "total_arity ns \<le> length ps"
    and "total_arity ns < 2 ^ 32"
  shows "gpu_execute_render_graph plat (Some c) (Some ns) (of_nat (length ns)) (Some ps) w =
     run_graph plat (Some c) ns ps w"
proof -
  have "exec_nodes plat (Some c) ps ns (w, of_nat 0) =
     (case run_graph plat (Some c) ns (drop 0 ps) w of
        Inl e \<Rightarrow> Inl e
      | Inr w' \<Rightarrow> Inr (w', of_nat (0 + total_arity ns)))"
    using assms(2,3) by (intro exec_nodes_refine) simp_all
  then show ?thesis
    using graph_as_fold [OF assms(1), of plat c ps w]
    by (simp split: sum.splits)
qed

lemma fresh_log: "api_calls fresh_world = []"
  by (simp add: fresh_world_def)

lemma graph_of_one:
  "gpu_execute_render_graph plat (Some c) (Some [t]) 1 (Some ps) w =
     (case exec_node plat (Some c) ps t (w, 0) of Inl e \<Rightarrow> Inl e | Inr st \<Rightarrow> Inr (fst st))"
  using graph_as_fold [of "[t]" plat c ps w] by (simp split: sum.splits)

lemma clear_with_surplus:
  "gpu_execute_render_graph Linux (Some good_context) (Some [0]) 1 (Some [1, 1, 1, 1, 0])
     fresh_world =
   Inr (fresh_world\<lparr>api_calls := [GL (GlClearColor 1 1 1 1), GL GlClear]\<rparr>)"
  by (simp add: graph_of_one exec_node_def param_at_def gpu_context_clear_def good_context_on_gles
        gl_defs emit_def fresh_log)

lemma blur_graph:
  "gpu_execute_render_graph Linux (Some good_context) (Some [2]) 1 (Some [4, 8])
     fresh_world = Inr fresh_world"
  by (simp add: graph_of_one exec_node_def param_at_def float_to_int32_def gpu_blur_pass_def)

lemma rect_graph:
  "gpu_execute_render_graph Linux (Some good_context) (Some [1]) 1
     (Some [0, 0, 10, 10, 1, 0, 0, 1]) fresh_world = Inr fresh_world"
  by (simp add: graph_of_one exec_node_def)

text \<open>
  C9.  A node whose tag is not one of 0 to 5 makes no call and leaves the parameter cursor
  where it is, with no fault; the graph with the node runs exactly as the graph without it,
  so the nodes after it are executed as usual.
\<close>

theorem unknown_node_is_skipped:
  assumes "t \<notin> {0, 1, 2, 3, 4, 5}" and "length (xs @ t # ys) < 2 ^ 32"
  shows "exec_node plat ctx ps t (w, off) = Inr (w, off) \<and>
     gpu_execute_render_graph plat ctx (Some (xs @ t # ys))
         (of_nat (length (xs @ t # ys))) params w =
       gpu_execute_render_graph plat ctx (Some (xs @ ys)) (of_nat (length (xs @ ys)))
         params w"
proof -
  have skip: "exec_node plat ctx qs t st = Inr st" for qs st
    using assms(1) by (rule exec_node_unknown)
  have fold: "exec_nodes plat ctx qs (xs @ t # ys) st = exec_nodes plat ctx qs (xs @ ys) st"
    for qs st
    by (simp add: exec_nodes_append skip split: sum.splits)
  have short: "length (xs @ ys) < 2 ^ 32"
    using assms(2) by simp
  have "gpu_execute_render_graph plat ctx (Some (xs @ t # ys))
         (of_nat (length (xs @ t # ys))) params w =
       gpu_execute_render_graph plat ctx (Some (xs @ ys)) (of_nat (length (xs @ ys)))
         params w"
  proof (cases ctx)
    case None
    then show ?thesis
      by (simp add: gpu_execute_render_graph_def)
  next
    case (Some c)
    show ?thesis
    proof (cases params)
      case None
      with Some show ?thesis
        by (simp add: gpu_execute_render_graph_def)
    next
      case (Some qs)
      with \<open>ctx = Some c\<close> show ?thesis
        using graph_as_fold [OF assms(2), of plat c qs w]
          graph_as_fold [OF short, of plat c qs w] fold [of qs "(w, 0)"]
        by simp
    qed
  qed
  with skip show ?thesis
    by simp
qed

theorem unknown_node_is_skipped_witness:
  "(9 :: i32) \<notin> {0, 1, 2, 3, 4, 5} \<and>
   exec_node Linux (Some good_context) [1, 1, 1, 1, 0] 9 (fresh_world, 4) =
     Inr (fresh_world, 4) \<and>
   gpu_execute_render_graph Linux (Some good_context) (Some [0, 9, 4]) 3
       (Some [1, 1, 1, 1, 0]) fresh_world =
     gpu_execute_render_graph Linux (Some good_context) (Some [0, 4]) 2
       (Some [1, 1, 1, 1, 0]) fresh_world"
proof -
  have out: "(9 :: i32) \<notin> {0, 1, 2, 3, 4, 5}"
    by simp
  have len: "length ([0] @ (9 :: i32) # [4]) < 2 ^ 32"
    by simp
  note skipped = unknown_node_is_skipped [OF out len,
      where plat = Linux and ctx = "Some good_context" and ps = "[1, 1, 1, 1, 0]"
        and w = fresh_world and off = 4 and params = "Some [1, 1, 1, 1, 0]"]
  have node: "exec_node Linux (Some good_context) [1, 1, 1, 1, 0] 9 (fresh_world, 4) =
      Inr (fresh_world, 4)"
    using skipped by blast
  have graph: "gpu_execute_render_graph Linux (Some good_context) (Some ([0] @ 9 # [4]))
        (of_nat (length ([0] @ (9 :: i32) # [4]))) (Some [1, 1, 1, 1, 0]) fresh_world =
      gpu_execute_render_graph Linux (Some good_context) (Some ([0] @ [4]))
        (of_nat (length ([0] @ [4 :: i32]))) (Some [1, 1, 1, 1, 0]) fresh_world"
    using skipped by blast
  from out node graph show ?thesis
    by simp
qed

text \<open>
  C1 as stated fails.  The graph \<open>[Clear]\<close> has total arity 4; given the five parameters
  \<open>[1, 1, 1, 1, 0]\<close> it is not rejected: the clear is executed.
\<close>

theorem arity_mismatch_is_executed:
  "total_arity [0] \<noteq> length [1, 1, 1, 1, 0 :: cfloat] \<and>
   gpu_execute_render_graph Linux (Some good_context) (Some [0]) 1 (Some [1, 1, 1, 1, 0])
     fresh_world =
   Inr (fresh_world\<lparr>api_calls := [GL (GlClearColor 1 1 1 1), GL GlClear]\<rparr>) \<and>
   gpu_execute_render_graph Linux (Some good_context) (Some [0]) 1 (Some [1, 1, 1, 1, 0])
     fresh_world \<noteq> Inr fresh_world"
proof -
  have "total_arity [0] \<noteq> length [1, 1, 1, 1, 0 :: cfloat]"
    by (simp add: total_arity_def arity_def)
  moreover have "fresh_world\<lparr>api_calls := [GL (GlClearColor 1 1 1 1), GL GlClear]\<rparr> \<noteq>
      fresh_world"
    by (simp add: fresh_world_def)
  ultimately show ?thesis
    by (simp add: clear_with_surplus)
qed

text \<open>
  C1, amended.  \<^verbatim>\<open>gpu_execute_render_graph\<close> rejects a submission as a whole, with no
  pass executed and no side effect, when the context, the node array or the parameter
  array is null.  It makes no arity check (it is not given the number of parameters): when
  the parameter sequence is at least as long as the total arity of the nodes, every node is
  executed in order on its own block and the parameters beyond the total arity are ignored.
\<close>

theorem render_graph_rejects_only_null:
  "(ctx = None \<or> nodes = None \<or> params = None \<longrightarrow>
      gpu_execute_render_graph plat ctx nodes n params w = Inr w) \<and>
   (length ns < 2 ^ 32 \<and> total_arity ns \<le> length ps \<and> total_arity ns < 2 ^ 32 \<longrightarrow>
      gpu_execute_render_graph plat (Some c) (Some ns) (of_nat (length ns)) (Some ps) w =
        run_graph plat (Some c) ns (take (total_arity ns) ps) w)"
proof -
  have null: "ctx = None \<or> nodes = None \<or> params = None \<longrightarrow>
      gpu_execute_render_graph plat ctx nodes n params w = Inr w"
    by (auto simp: gpu_execute_render_graph_def split: option.splits)
  have surplus: "gpu_execute_render_graph plat (Some c) (Some ns) (of_nat (length ns))
        (Some ps) w = run_graph plat (Some c) ns (take (total_arity ns) ps) w"
    if "length ns < 2 ^ 32" and "total_arity ns \<le> length ps" and "total_arity ns < 2 ^ 32"
    using graph_refines_blocks [OF that, of plat c w]
      run_graph_surplus [OF that(2), of plat "Some c" w]
    by simp
  from null surplus show ?thesis
    by blast
qed

theorem render_graph_rejects_only_null_witness:
  "gpu_execute_render_graph Linux None (Some [0]) 1 (Some [1, 1, 1, 1, 0]) fresh_world =
     Inr fresh_world \<and>
   length [0 :: i32] < 2 ^ 32 \<and> total_arity [0] \<le> length [1, 1, 1, 1, 0 :: cfloat] \<and>
   total_arity [0] < 2 ^ 32 \<and>
   gpu_execute_render_graph Linux (Some good_context) (Some [0]) 1 (Some [1, 1, 1, 1, 0])
     fresh_world =
   run_graph Linux (Some good_context) [0] [1, 1, 1, 1] fresh_world"
proof -
  have pre: "length [0 :: i32] < 2 ^ 32 \<and> total_arity [0] \<le> length [1, 1, 1, 1, 0 :: cfloat] \<and>
      total_arity [0] < 2 ^ 32"
    by (simp add: total_arity_def arity_def)
  note at_null = render_graph_rejects_only_null [where ctx = None and nodes = "Some [0]"
      and params = "Some [1, 1, 1, 1, 0]" and plat = Linux and n = 1 and w = fresh_world]
  note at_graph = render_graph_rejects_only_null [where ns = "[0]"
      and ps = "[1, 1, 1, 1, 0]" and plat = Linux and c = good_context and w = fresh_world]
  have a: "gpu_execute_render_graph Linux None (Some [0]) 1 (Some [1, 1, 1, 1, 0])
      fresh_world = Inr fresh_world"
    using at_null by blast
  have b: "gpu_execute_render_graph Linux (Some good_context) (Some [0])
        (of_nat (length [0 :: i32])) (Some [1, 1, 1, 1, 0]) fresh_world =
      run_graph Linux (Some good_context) [0]
        (take (total_arity [0]) [1, 1, 1, 1, 0]) fresh_world"
    using at_graph pre by blast
  have c: "take (total_arity [0]) [1, 1, 1, 1, 0 :: cfloat] = [1, 1, 1, 1]"
    by (simp add: total_arity_def arity_def)
  from a b pre show ?thesis
    unfolding c by simp
qed

text \<open>
  C2.  \<^verbatim>\<open>gpu_blur_pass\<close> returns after its null check: for every input the backend
  state is unchanged, so no horizontal and no vertical pass is made.  The graph
  \<open>[BlurPass]\<close> with the parameters \<open>[4, 8]\<close> ends without a fault and without a call.
\<close>

theorem blur_pass_makes_no_call:
  "gpu_blur_pass ctx x y wd ht radius samples w = w \<and>
   gpu_execute_render_graph Linux (Some good_context) (Some [2]) 1 (Some [4, 8])
     fresh_world = Inr fresh_world"
  by (simp add: blur_graph gpu_blur_pass_def split: option.splits)

text \<open>
  C3.  A DrawRect node advances the cursor by 8 and dispatches nothing: the graph
  \<open>[DrawRect]\<close> with eight parameters ends with the backend state unchanged.
\<close>

theorem draw_rect_makes_no_call:
  "exec_node plat ctx ps 1 (w, off) = Inr (w, off + 8) \<and>
   gpu_execute_render_graph Linux (Some good_context) (Some [1]) 1
     (Some [0, 0, 10, 10, 1, 0, 0, 1]) fresh_world = Inr fresh_world"
  by (simp add: rect_graph exec_node_def)

subsection \<open>Shader creation\<close>

lemmas shader_defs = glCreateShader_def glShaderSource_def glCompileShader_def
  glGetShaderiv_def glGetShaderInfoLog_def glDeleteShader_def glCreateProgram_def
  glAttachShader_def glLinkProgram_def glGetProgramiv_def glGetProgramInfoLog_def
  glDeleteProgram_def fresh_name_def printf_def emit_def

lemma create_shader_gles:
  assumes "on_gles plat c"
  shows "gpu_context_create_shader plat drv (Some c) (Some vs) (Some fs) w = (h, w') \<Longrightarrow>
     live_shaders w' = live_shaders w \<and>
     (if compile_ok drv GL_VERTEX_SHADER vs \<and> compile_ok drv GL_FRAGMENT_SHADER fs \<and>
         link_ok drv [(GL_VERTEX_SHADER, vs), (GL_FRAGMENT_SHADER, fs)]
      then h = next_name w + 3 \<and> live_programs w' = h # live_programs w
      else h = 0 \<and> live_programs w' = live_programs w)"
  using assms
  by (auto simp: gpu_context_create_shader_def shader_defs Let_def
      split: prod.splits if_splits)

text \<open>
  C5.  On a valid context (an OpenGL ES context on a build with EGL) and with both sources
  given, \<^verbatim>\<open>gpu_context_create_shader\<close> always leaves the list of live stage objects as
  it found it.  If the vertex stage or the fragment stage does not compile, or both compile
  and the program does not link, it returns 0 and the list of live programs is unchanged
  too.  If all three steps succeed it returns the nonzero name of the new program, which is
  then the only new live object.
\<close>

theorem create_shader_releases_stage_objects:
  assumes "on_gles plat c"
    and "gpu_context_create_shader plat drv (Some c) (Some vs) (Some fs) w = (h, w')"
  shows "gpu_context_is_valid (Some c) \<and>
     live_shaders w' = live_shaders w \<and>
     (\<not> compile_ok drv GL_VERTEX_SHADER vs \<longrightarrow>
        h = 0 \<and> live_programs w' = live_programs w) \<and>
     (\<not> compile_ok drv GL_FRAGMENT_SHADER fs \<longrightarrow>
        h = 0 \<and> live_programs w' = live_programs w) \<and>
     (compile_ok drv GL_VERTEX_SHADER vs \<and> compile_ok drv GL_FRAGMENT_SHADER fs \<and>
      \<not> link_ok drv [(GL_VERTEX_SHADER, vs), (GL_FRAGMENT_SHADER, fs)] \<longrightarrow>
        h = 0 \<and> live_programs w' = live_programs w) \<and>
     (compile_ok drv GL_VERTEX_SHADER vs \<and> compile_ok drv GL_FRAGMENT_SHADER fs \<and>
      link_ok drv [(GL_VERTEX_SHADER, vs), (GL_FRAGMENT_SHADER, fs)] \<longrightarrow>
        h \<noteq> 0 \<and> h = next_name w + 3 \<and> live_programs w' = h # live_programs w)"
proof -
  have valid: "gpu_context_is_valid (Some c)"
    using assms(1) by (simp add: gpu_context_is_valid_def on_gles_def)
  note facts = create_shader_gles [OF assms]
  have stages: "live_shaders w' = live_shaders w"
    using facts by simp
  have failed: "h = 0 \<and> live_programs w' = live_programs w"
    if "\<not> (compile_ok drv GL_VERTEX_SHADER vs \<and> compile_ok drv GL_FRAGMENT_SHADER fs \<and>
         link_ok drv [(GL_VERTEX_SHADER, vs), (GL_FRAGMENT_SHADER, fs)])"
    using facts that by (simp split: if_splits)
  have linked: "h \<noteq> 0 \<and> h = next_name w + 3 \<and> live_programs w' = h # live_programs w"
    if "compile_ok drv GL_VERTEX_SHADER vs \<and> compile_ok drv GL_FRAGMENT_SHADER fs \<and>
         link_ok drv [(GL_VERTEX_SHADER, vs), (GL_FRAGMENT_SHADER, fs)]"
    using facts that by (simp split: if_splits)
  from valid stages failed linked show ?thesis
    by blast
qed

theorem create_shader_releases_stage_objects_witness:
  "on_gles Linux good_context \<and>
   fst (gpu_context_create_shader Linux good_driver (Some good_context) (Some ''v'')
          (Some ''bad'') fresh_world) = 0 \<and>
   live_shaders (snd (gpu_context_create_shader Linux good_driver (Some good_context)
          (Some ''v'') (Some ''bad'') fresh_world)) = [] \<and>
   fst (gpu_context_create_shader Linux good_driver (Some good_context) (Some ''v'')
          (Some ''f'') fresh_world) = 3 \<and>
   live_shaders (snd (gpu_context_create_shader Linux good_driver (Some good_context)
          (Some ''v'') (Some ''f'') fresh_world)) = []"
proof -
  have bad: "\<not> compile_ok good_driver GL_FRAGMENT_SHADER ''bad''"
    by (simp add: good_driver_def)
  have fine: "compile_ok good_driver GL_VERTEX_SHADER ''v'' \<and>
      compile_ok good_driver GL_FRAGMENT_SHADER ''f'' \<and>
      link_ok good_driver [(GL_VERTEX_SHADER, ''v''), (GL_FRAGMENT_SHADER, ''f'')]"
    by (simp add: good_driver_def)
  have start: "live_shaders fresh_world = []" "next_name fresh_world + 3 = 3"
    by (simp_all add: fresh_world_def)
  note rejected = create_shader_releases_stage_objects [OF good_context_on_gles surjective_pairing,
      of good_driver "''v''" "''bad''" fresh_world]
  note accepted = create_shader_releases_stage_objects [OF good_context_on_gles surjective_pairing,
      of good_driver "''v''" "''f''" fresh_world]
  have r1: "fst (gpu_context_create_shader Linux good_driver (Some good_context) (Some ''v'')
          (Some ''bad'') fresh_world) = 0"
    using rejected bad by blast
  have r2: "live_shaders (snd (gpu_context_create_shader Linux good_driver
          (Some good_context) (Some ''v'') (Some ''bad'') fresh_world)) =
        live_shaders fresh_world"
    using rejected by blast
  have a1: "fst (gpu_context_create_shader Linux good_driver (Some good_context) (Some ''v'')
          (Some ''f'') fresh_world) = next_name fresh_world + 3"
    using accepted fine by blast
  have a2: "live_shaders (snd (gpu_context_create_shader Linux good_driver
          (Some good_context) (Some ''v'') (Some ''f'') fresh_world)) =
        live_shaders fresh_world"
    using accepted by blast
  show ?thesis
    by (simp only: r1 r2 a1 a2 start good_context_on_gles simp_thms)
qed

end
